theory Spec2Isabelle
  imports Main "HOL-Library.AList"
begin

section \<open>The rspack resolver plugin of embroider\<close>

text \<open>
  This theory embeds \<^verbatim>\<open>packages/rspack/src/rspack-resolver-plugin.ts\<close> (the plugin
  that taps the factory hook, called the \<^emph>\<open>factory-level variant\<close> below) and the second
  copy of the plugin kept in the repository (the one that taps the compilation hook,
  called the \<^emph>\<open>compilation-level variant\<close>; its definitions carry the suffix
  \<open>_compilation\<close>).

  A JavaScript string is represented by the bytes of its UTF-8 encoding (\<^typ>\<open>string\<close>).
  Every well-formed JavaScript string has exactly one such representation, and the
  delimiters the plugin looks for (\<^verbatim>\<open>/\<close>, \<^verbatim>\<open>!\<close>, \<^verbatim>\<open>?\<close>, \<^verbatim>\<open>&\<close>, \<^verbatim>\<open>=\<close>, \<^verbatim>\<open>@\<close>) are single
  bytes that never occur inside a multi-byte sequence, so searching and splitting on bytes
  agrees with searching and splitting on UTF-16 code units.
\<close>

subsection \<open>String primitives\<close>

text \<open>\<^verbatim>\<open>String.prototype.startsWith\<close> and \<^verbatim>\<open>String.prototype.includes\<close>.\<close>

fun startsWith :: "string \<Rightarrow> string \<Rightarrow> bool" where
  "startsWith s [] = True"
| "startsWith [] (p # ps) = False"
| "startsWith (c # cs) (p # ps) = (c = p \<and> startsWith cs ps)"

fun str_includes :: "string \<Rightarrow> string \<Rightarrow> bool" where
  "str_includes [] p = (p = [])"
| "str_includes (c # cs) p = (startsWith (c # cs) p \<or> str_includes cs p)"

text \<open>\<open>splitOn d s\<close> is \<^verbatim>\<open>s.split(d)\<close> for a one-character separator.\<close>

fun splitOn :: "char \<Rightarrow> string \<Rightarrow> string list" where
  "splitOn d [] = [[]]"
| "splitOn d (c # cs) =
     (if c = d then [] # splitOn d cs
      else (case splitOn d cs of [] \<Rightarrow> [[c]] | x # xs \<Rightarrow> (c # x) # xs))"

text \<open>\<open>joinWith d xs\<close> is \<^verbatim>\<open>xs.join(d)\<close>.\<close>

fun joinWith :: "string \<Rightarrow> string list \<Rightarrow> string" where
  "joinWith d [] = []"
| "joinWith d [x] = x"
| "joinWith d (x # y # ys) = x @ d @ joinWith d (y # ys)"

text \<open>
  A regular-expression dot matches every character except the line terminators
  LF, CR, U+2028 and U+2029; the last two are \<^verbatim>\<open>E2 80 A8\<close> and \<^verbatim>\<open>E2 80 A9\<close> in UTF-8.
  \<open>no_line_terminator s\<close> says that the pattern \<^verbatim>\<open>.*\<close> matches all of \<open>s\<close>.
\<close>

fun no_line_terminator :: "string \<Rightarrow> bool" where
  "no_line_terminator [] = True"
| "no_line_terminator (c # cs) =
     (c \<noteq> CHR 0x0A \<and> c \<noteq> CHR 0x0D
      \<and> \<not> startsWith (c # cs) [CHR 0xE2, CHR 0x80, CHR 0xA8]
      \<and> \<not> startsWith (c # cs) [CHR 0xE2, CHR 0x80, CHR 0xA9]
      \<and> no_line_terminator cs)"

subsection \<open>The posix functions of Node's \<^verbatim>\<open>path\<close> module\<close>

text \<open>
  \<^verbatim>\<open>dirname\<close> scans the path from its last character down to index 1: it skips trailing
  slashes, then the last segment, and cuts the path at the slash before that segment.
  \<open>dirname_scan\<close> is that loop; its list argument holds the characters still to visit
  (index \<open>i\<close> first, index 1 last), so the index of the head is the length of the list,
  and the flag is \<^verbatim>\<open>matchedSlash\<close>. The result is \<^verbatim>\<open>end\<close>, with \<open>None\<close> for \<^verbatim>\<open>-1\<close>.
\<close>

fun dirname_scan :: "string \<Rightarrow> bool \<Rightarrow> nat option" where
  "dirname_scan [] matchedSlash = None"
| "dirname_scan (c # cs) matchedSlash =
     (if c = CHR ''/'' then
        (if \<not> matchedSlash then Some (Suc (length cs)) else dirname_scan cs matchedSlash)
      else dirname_scan cs False)"

definition dirname :: "string \<Rightarrow> string" where
  "dirname path =
     (if path = [] then ''.''
      else
        let hasRoot = (hd path = CHR ''/'') in
        (case dirname_scan (rev (tl path)) True of
           None \<Rightarrow> (if hasRoot then ''/'' else ''.'')
         | Some e \<Rightarrow> (if hasRoot \<and> e = 1 then ''//'' else take e path)))"

text \<open>
  \<^verbatim>\<open>normalizeString\<close> walks the segments between slashes: an empty segment and \<^verbatim>\<open>.\<close> are
  dropped, \<^verbatim>\<open>..\<close> removes the segment before it (or is kept, when there is none to remove
  and the path is relative), every other segment is kept. \<open>normalize_step\<close> is one
  segment of that walk; the segments kept so far are held last first.
\<close>

fun normalize_step :: "bool \<Rightarrow> string \<Rightarrow> string list \<Rightarrow> string list" where
  "normalize_step allowAboveRoot seg kept =
     (if seg = [] \<or> seg = ''.'' then kept
      else if seg = ''..'' then
        (case kept of
           [] \<Rightarrow> (if allowAboveRoot then [''..''] else [])
         | lastSeg # below \<Rightarrow>
             (if lastSeg = ''..'' then (if allowAboveRoot then ''..'' # kept else kept)
              else below))
      else seg # kept)"

definition normalizeString :: "string \<Rightarrow> bool \<Rightarrow> string" where
  "normalizeString path allowAboveRoot =
     joinWith ''/'' (rev (fold (normalize_step allowAboveRoot) (splitOn CHR ''/'' path) []))"

definition path_normalize :: "string \<Rightarrow> string" where
  "path_normalize path =
     (if path = [] then ''.''
      else
        let isAbsolute = (hd path = CHR ''/'');
            trailingSeparator = (last path = CHR ''/'');
            p = normalizeString path (\<not> isAbsolute)
        in if p = [] then (if isAbsolute then ''/'' else if trailingSeparator then ''./'' else ''.'')
           else
             let p' = (if trailingSeparator then p @ ''/'' else p)
             in if isAbsolute then CHR ''/'' # p' else p')"

definition path_join :: "string list \<Rightarrow> string" where
  "path_join args =
     (let joined = joinWith ''/'' (filter (\<lambda>a. a \<noteq> []) args)
      in if joined = [] then ''.'' else path_normalize joined)"

text \<open>
  \<^verbatim>\<open>path.resolve\<close> prepends its arguments from the last to the first, then the working
  directory, until the path is absolute. \<open>resolve_loop\<close> takes them in that order.
\<close>

fun resolve_loop :: "string list \<Rightarrow> string \<Rightarrow> string \<times> bool" where
  "resolve_loop [] resolvedPath = (resolvedPath, False)"
| "resolve_loop (p # ps) resolvedPath =
     (if p = [] then resolve_loop ps resolvedPath
      else if hd p = CHR ''/'' then (p @ ''/'' @ resolvedPath, True)
      else resolve_loop ps (p @ ''/'' @ resolvedPath))"

definition path_resolve :: "string \<Rightarrow> string list \<Rightarrow> string" where
  "path_resolve cwd args =
     (case resolve_loop (rev args @ [cwd]) [] of
        (resolvedPath, resolvedAbsolute) \<Rightarrow>
          let p = normalizeString resolvedPath (\<not> resolvedAbsolute)
          in if resolvedAbsolute then CHR ''/'' # p
             else if p \<noteq> [] then p else ''.'')"

subsection \<open>\<^verbatim>\<open>URLSearchParams\<close>\<close>

text \<open>
  The \<^verbatim>\<open>application/x-www-form-urlencoded\<close> serializer of the URL standard, on the
  bytes of the UTF-8 encoding: a space becomes \<^verbatim>\<open>+\<close>, the bytes of \<open>urlencoded_unreserved\<close>
  stand for themselves, every other byte becomes \<^verbatim>\<open>%XX\<close> with upper-case hexadecimal digits.
\<close>

definition urlencoded_unreserved :: string where
  "urlencoded_unreserved =
     ''abcdefghijklmnopqrstuvwxyzABCDEFGHIJKLMNOPQRSTUVWXYZ0123456789*-._''"

definition hex_digit :: "nat \<Rightarrow> char" where
  "hex_digit n = (if n < 10 then char_of (48 + n) else char_of (55 + n))"

definition hex_val :: "char \<Rightarrow> nat option" where
  "hex_val c =
     (let n = (of_char c :: nat) in
      if 48 \<le> n \<and> n \<le> 57 then Some (n - 48)
      else if 65 \<le> n \<and> n \<le> 70 then Some (n - 55)
      else if 97 \<le> n \<and> n \<le> 102 then Some (n - 87)
      else None)"

definition urlencoded_byte :: "char \<Rightarrow> string" where
  "urlencoded_byte c =
     (if c = CHR '' '' then ''+''
      else if c \<in> set urlencoded_unreserved then [c]
      else [CHR ''%'', hex_digit ((of_char c :: nat) div 16), hex_digit ((of_char c :: nat) mod 16)])"

definition urlencoded_serialize :: "string \<Rightarrow> string" where
  "urlencoded_serialize s = concat (map urlencoded_byte s)"

text \<open>\<^verbatim>\<open>params.toString()\<close> for the list of name-value pairs \<open>params\<close>.\<close>

definition URLSearchParams_toString :: "(string \<times> string) list \<Rightarrow> string" where
  "URLSearchParams_toString params =
     joinWith ''&''
       (map (\<lambda>(name, v). urlencoded_serialize name @ ''='' @ urlencoded_serialize v) params)"

text \<open>
  Percent-decoding: \<^verbatim>\<open>%\<close> followed by two hexadecimal digits is the byte they denote,
  every other byte (a \<^verbatim>\<open>%\<close> not followed by two such digits too) stands for itself.
\<close>

fun percent_decode :: "string \<Rightarrow> string" where
  "percent_decode [] = []"
| "percent_decode (c # cs) =
     (if c = CHR ''%'' then
        (case cs of
           h1 # h2 # rest \<Rightarrow>
             (case (hex_val h1, hex_val h2) of
                (Some a, Some b) \<Rightarrow> char_of (16 * a + b) # percent_decode rest
              | _ \<Rightarrow> c # percent_decode cs)
         | _ \<Rightarrow> c # percent_decode cs)
      else c # percent_decode cs)"

text \<open>
  The parser decodes the percent-decoded bytes as UTF-8, putting U+FFFD (the bytes
  \<^verbatim>\<open>EF BF BD\<close>) in the place of every ill-formed sequence. \<open>utf8_lead b\<close> gives, for a lead
  byte, the number of continuation bytes and the range allowed for the first of them;
  the other continuation bytes are in \<^verbatim>\<open>80..BF\<close>. When a continuation byte is out of
  range, the decoder emits one U+FFFD for the bytes read so far and reads the offending
  byte again as the start of a sequence.
\<close>

definition in_range :: "char \<Rightarrow> nat \<Rightarrow> nat \<Rightarrow> bool" where
  "in_range c lo hi = (lo \<le> of_char c \<and> (of_char c :: nat) \<le> hi)"

definition utf8_lead :: "char \<Rightarrow> (nat \<times> nat \<times> nat) option" where
  "utf8_lead b =
     (if in_range b 0xC2 0xDF then Some (1, 0x80, 0xBF)
      else if in_range b 0xE0 0xEF then
        Some (2, if b = CHR 0xE0 then 0xA0 else 0x80, if b = CHR 0xED then 0x9F else 0xBF)
      else if in_range b 0xF0 0xF4 then
        Some (3, if b = CHR 0xF0 then 0x90 else 0x80, if b = CHR 0xF4 then 0x8F else 0xBF)
      else None)"

definition replacement_character :: string where
  "replacement_character = [CHR 0xEF, CHR 0xBF, CHR 0xBD]"

fun utf8_decode :: "string \<Rightarrow> string" where
  "utf8_decode [] = []"
| "utf8_decode (b # bs) =
     (if (of_char b :: nat) < 0x80 then b # utf8_decode bs
      else
        (case utf8_lead b of
           None \<Rightarrow> replacement_character @ utf8_decode bs
         | Some (needed, lo, hi) \<Rightarrow>
            (case bs of
               [] \<Rightarrow> replacement_character
             | c1 # r1 \<Rightarrow>
                 if \<not> in_range c1 lo hi then replacement_character @ utf8_decode bs
                 else if needed = 1 then b # c1 # utf8_decode r1
                 else
                   (case r1 of
                      [] \<Rightarrow> replacement_character
                    | c2 # r2 \<Rightarrow>
                        if \<not> in_range c2 0x80 0xBF then replacement_character @ utf8_decode r1
                        else if needed = 2 then b # c1 # c2 # utf8_decode r2
                        else
                          (case r2 of
                             [] \<Rightarrow> replacement_character
                           | c3 # r3 \<Rightarrow>
                               if \<not> in_range c3 0x80 0xBF
                               then replacement_character @ utf8_decode r2
                               else b # c1 # c2 # c3 # utf8_decode r3)))))"

text \<open>
  \<open>well_formed s\<close>: the bytes \<open>s\<close> are the UTF-8 encoding of a sequence of Unicode scalar
  values (table 3-7 of the Unicode standard), that is, \<open>s\<close> represents a JavaScript string.
\<close>

fun well_formed :: "string \<Rightarrow> bool" where
  "well_formed [] = True"
| "well_formed (b # bs) =
     (if (of_char b :: nat) < 0x80 then well_formed bs
      else
        (case utf8_lead b of
           None \<Rightarrow> False
         | Some (needed, lo, hi) \<Rightarrow>
            (case bs of
               [] \<Rightarrow> False
             | c1 # r1 \<Rightarrow>
                 in_range c1 lo hi \<and>
                 (if needed = 1 then well_formed r1
                  else
                    (case r1 of
                       [] \<Rightarrow> False
                     | c2 # r2 \<Rightarrow>
                         in_range c2 0x80 0xBF \<and>
                         (if needed = 2 then well_formed r2
                          else
                            (case r2 of
                               [] \<Rightarrow> False
                             | c3 # r3 \<Rightarrow> in_range c3 0x80 0xBF \<and> well_formed r3)))))))"

text \<open>
  The parser: the input is cut at every \<^verbatim>\<open>&\<close>, empty pieces are skipped, each piece is
  cut at its first \<^verbatim>\<open>=\<close> (the value is empty when there is none), \<^verbatim>\<open>+\<close> becomes a space,
  and name and value are percent-decoded, then decoded as UTF-8.
\<close>

definition urlencoded_decode :: "string \<Rightarrow> string" where
  "urlencoded_decode s =
     utf8_decode (percent_decode (map (\<lambda>c. if c = CHR ''+'' then CHR '' '' else c) s))"

definition urlencoded_pair :: "string \<Rightarrow> string \<times> string" where
  "urlencoded_pair piece =
     (urlencoded_decode (takeWhile (\<lambda>c. c \<noteq> CHR ''='') piece),
      urlencoded_decode (drop 1 (dropWhile (\<lambda>c. c \<noteq> CHR ''='') piece)))"

definition urlencoded_parse :: "string \<Rightarrow> (string \<times> string) list" where
  "urlencoded_parse input =
     map urlencoded_pair (filter (\<lambda>piece. piece \<noteq> []) (splitOn CHR ''&'' input))"

text \<open>\<^verbatim>\<open>new URLSearchParams(init)\<close> for a string: one leading \<^verbatim>\<open>?\<close> is dropped.\<close>

definition URLSearchParams_new :: "string \<Rightarrow> (string \<times> string) list" where
  "URLSearchParams_new init =
     urlencoded_parse (if startsWith init ''?'' then tl init else init)"

text \<open>\<^verbatim>\<open>params.get(name)\<close>: the value of the first pair with that name, \<open>None\<close> for \<^verbatim>\<open>null\<close>.\<close>

definition URLSearchParams_get :: "(string \<times> string) list \<Rightarrow> string \<Rightarrow> string option" where
  "URLSearchParams_get params name = map_of params name"

subsection \<open>The regular expressions of the plugin\<close>

text \<open>
  \<open>regex_query lit s\<close> is the first capture group of the leftmost match in \<open>s\<close> of the
  pattern made of the literal text \<open>lit\<close> followed by \<^verbatim>\<open>([^!]+)\<close>: at the first place
  where \<open>lit\<close> occurs with a character other than \<^verbatim>\<open>!\<close> after it, the characters up to the
  next \<^verbatim>\<open>!\<close> (or to the end). The factory-level variant uses it twice: with \<^verbatim>\<open>\?\<close>
  in \<^verbatim>\<open>from\<close>, and with the escaped name of the virtual loader followed by \<^verbatim>\<open>\?\<close> in the
  fallback resolver.
\<close>

fun regex_query :: "string \<Rightarrow> string \<Rightarrow> string option" where
  "regex_query lit [] = None"
| "regex_query lit (c # cs) =
     (let after = drop (length lit) (c # cs) in
      if startsWith (c # cs) lit \<and> after \<noteq> [] \<and> hd after \<noteq> CHR ''!''
      then Some (takeWhile (\<lambda>x. x \<noteq> CHR ''!'') after)
      else regex_query lit cs)"

text \<open>
  The compilation-level variant matches the path of the virtual loader followed by
  \<^verbatim>\<open>\?(?<query>.+)!\<close>. The dot does not cross a line terminator and the quantifier is
  greedy, so at a place where the literal occurs the group is the text up to the last
  \<^verbatim>\<open>!\<close> of the line, and the place matches when that text is not empty.
\<close>

fun take_line :: "string \<Rightarrow> string" where
  "take_line [] = []"
| "take_line (c # cs) =
     (if c = CHR 0x0A \<or> c = CHR 0x0D
         \<or> startsWith (c # cs) [CHR 0xE2, CHR 0x80, CHR 0xA8]
         \<or> startsWith (c # cs) [CHR 0xE2, CHR 0x80, CHR 0xA9]
      then [] else c # take_line cs)"

definition upto_last_bang :: "string \<Rightarrow> string option" where
  "upto_last_bang line =
     (case dropWhile (\<lambda>x. x \<noteq> CHR ''!'') (rev line) of
        [] \<Rightarrow> None
      | bang # front \<Rightarrow> (if front = [] then None else Some (rev front)))"

fun regex_virtual_request :: "string \<Rightarrow> string \<Rightarrow> string option" where
  "regex_virtual_request lit [] = None"
| "regex_virtual_request lit (c # cs) =
     (if startsWith (c # cs) lit then
        (case upto_last_bang (take_line (drop (length lit) (c # cs))) of
           Some query \<Rightarrow> Some query
         | None \<Rightarrow> regex_virtual_request lit cs)
      else regex_virtual_request lit cs)"

text \<open>
  The two patterns that classify a specifier in manual resolution,
  \<^verbatim>\<open>/^(@?[^/]+\/[^/]+)\/(.+)$/\<close> and \<^verbatim>\<open>/^(@?[^/]+\/[^/]+)$/\<close>. A class \<^verbatim>\<open>[^/]+\<close> stops at
  the next slash, so the first group is the first two segments of the specifier, both
  non-empty; the optional \<^verbatim>\<open>@\<close> changes nothing, since \<^verbatim>\<open>[^/]+\<close> matches an \<^verbatim>\<open>@\<close> too.
  \<open>two_segments s\<close> gives that group and what follows it.
\<close>

definition two_segments :: "string \<Rightarrow> (string \<times> string) option" where
  "two_segments s =
     (let seg1 = takeWhile (\<lambda>c. c \<noteq> CHR ''/'') s;
          rest1 = dropWhile (\<lambda>c. c \<noteq> CHR ''/'') s
      in if seg1 = [] \<or> rest1 = [] then None
         else
           let seg2 = takeWhile (\<lambda>c. c \<noteq> CHR ''/'') (tl rest1);
               rest2 = dropWhile (\<lambda>c. c \<noteq> CHR ''/'') (tl rest1)
           in if seg2 = [] then None else Some (seg1 @ ''/'' @ seg2, rest2))"

definition subpathMatch :: "string \<Rightarrow> (string \<times> string) option" where
  "subpathMatch s =
     (case two_segments s of
        None \<Rightarrow> None
      | Some (packageName, rest) \<Rightarrow>
          (if rest \<noteq> [] \<and> tl rest \<noteq> [] \<and> no_line_terminator (tl rest)
           then Some (packageName, tl rest) else None))"

definition rootMatch :: "string \<Rightarrow> string option" where
  "rootMatch s =
     (case two_segments s of
        None \<Rightarrow> None
      | Some (packageName, rest) \<Rightarrow> (if rest = [] then Some packageName else None))"

subsection \<open>Data model\<close>

text \<open>
  The hook receives its record as \<^verbatim>\<open>unknown\<close> and \<^verbatim>\<open>from\<close> takes it as \<^verbatim>\<open>any\<close>, testing
  the types of the fields itself; so the fields are JavaScript values. What the plugin
  asks of a value is whether it is a string, which string, and whether it is truthy; a
  number is an integer here and every object is \<open>JObject\<close>.
\<close>

datatype jsval = JUndefined | JNull | JBool bool | JNum int | JStr string | JObject

fun truthy :: "jsval \<Rightarrow> bool" where
  "truthy JUndefined = False"
| "truthy JNull = False"
| "truthy (JBool b) = b"
| "truthy (JNum n) = (n \<noteq> 0)"
| "truthy (JStr s) = (s \<noteq> [])"
| "truthy JObject = True"

datatype jserror = JsError (message: string) | JsTypeError (message: string)

type_synonym meta = "(string \<times> jsval) list"

record contextInfo =
  issuer :: jsval
  embroiderMeta :: "meta option"

text \<open>
  The host's resolution record. \<open>contextInfo = None\<close> stands for a missing
  (\<^verbatim>\<open>undefined\<close> or \<^verbatim>\<open>null\<close>) field. \<open>dependencies\<close> is read by the compilation-level variant
  only: \<open>None\<close> when the field is not an array, otherwise for each dependency the
  \<^verbatim>\<open>userRequest\<close> of its parent module (\<open>None\<close> when it has none).
\<close>

record state =
  request :: jsval
  contextDir :: jsval
  contextInfo :: "contextInfo option"
  dependencies :: "string option list option"

text \<open>
  The Context Tracker is a JavaScript \<^verbatim>\<open>Map\<close>, which keeps its entries in insertion
  order: \<^verbatim>\<open>set\<close> is \<^const>\<open>AList.update\<close> and \<^verbatim>\<open>get\<close> is \<^const>\<open>map_of\<close>.
\<close>

type_synonym tracker = "(string \<times> string) list"

text \<open>
  A Request Model. The shared record it points to (\<^verbatim>\<open>this.state\<close>) is not a field here:
  every operation takes the current record and returns the updated one.
\<close>

record moduleRequest =
  babelLoaderPrefix :: string
  appRoot :: string
  isVirtual :: bool
  specifier :: jsval
  fromFile :: jsval
  meta :: "meta option"

datatype resolution = Found | NotFound "jserror option"

definition virtualLoaderName :: string where
  "virtualLoaderName = ''@embroider/rspack/src/virtual-loader''"

subsection \<open>The Request Model\<close>

text \<open>
  The constructor reads \<^verbatim>\<open>state.contextInfo.issuer\<close>, which throws a \<^verbatim>\<open>TypeError\<close> when
  \<^verbatim>\<open>contextInfo\<close> is missing.
\<close>

definition RspackModuleRequest_new ::
  "string \<Rightarrow> string \<Rightarrow> state \<Rightarrow> bool \<Rightarrow> jserror + moduleRequest" where
  "RspackModuleRequest_new prefix root st virtual =
     (case contextInfo st of
        None \<Rightarrow> Inl (JsTypeError ''Cannot read properties of undefined (reading issuer)'')
      | Some ci \<Rightarrow>
          Inr \<lparr> babelLoaderPrefix = prefix, appRoot = root, isVirtual = virtual,
                specifier = request st, fromFile = issuer ci,
                meta = (case embroiderMeta ci of Some m \<Rightarrow> Some m | None \<Rightarrow> None) \<rparr>)"

definition request_alias :: "moduleRequest \<Rightarrow> string \<Rightarrow> state \<Rightarrow> jserror + (moduleRequest \<times> state)" where
  "request_alias this newSpecifier st =
     (let st' = st\<lparr>request := JStr newSpecifier\<rparr> in
      case RspackModuleRequest_new (babelLoaderPrefix this) (appRoot this) st' False of
        Inl e \<Rightarrow> Inl e
      | Inr next \<Rightarrow> Inr (next, st'))"

definition request_rehome :: "moduleRequest \<Rightarrow> string \<Rightarrow> state \<Rightarrow> jserror + (moduleRequest \<times> state)" where
  "request_rehome this newFromFile st =
     (if fromFile this = JStr newFromFile then Inr (this, st)
      else
        (case contextInfo st of
           None \<Rightarrow> Inl (JsTypeError ''Cannot set properties of undefined (setting issuer)'')
         | Some ci \<Rightarrow>
             let st' = st\<lparr>contextInfo := Some (ci\<lparr>issuer := JStr newFromFile\<rparr>),
                          contextDir := JStr (dirname newFromFile)\<rparr>
             in (case RspackModuleRequest_new (babelLoaderPrefix this) (appRoot this) st' False of
                   Inl e \<Rightarrow> Inl e
                 | Inr next \<Rightarrow> Inr (next, st'))))"

definition request_virtualize :: "moduleRequest \<Rightarrow> string \<Rightarrow> state \<Rightarrow> jserror + (moduleRequest \<times> state)" where
  "request_virtualize this filename st =
     (let params = AList.update ''a'' (appRoot this) (AList.update ''f'' filename []) in
      case request_alias this
             (babelLoaderPrefix this @ virtualLoaderName @ ''?''
                @ URLSearchParams_toString params @ ''!'') st of
        Inl e \<Rightarrow> Inl e
      | Inr (next, st') \<Rightarrow> Inr (next\<lparr>isVirtual := True\<rparr>, st'))"

definition request_withMeta ::
  "moduleRequest \<Rightarrow> meta option \<Rightarrow> state \<Rightarrow> jserror + (moduleRequest \<times> state)" where
  "request_withMeta this m st =
     (case contextInfo st of
        None \<Rightarrow> Inl (JsTypeError ''Cannot set properties of undefined (setting _embroiderMeta)'')
      | Some ci \<Rightarrow>
          let st' = st\<lparr>contextInfo := Some (ci\<lparr>embroiderMeta := m\<rparr>)\<rparr>
          in (case RspackModuleRequest_new (babelLoaderPrefix this) (appRoot this) st' False of
                Inl e \<Rightarrow> Inl e
              | Inr next \<Rightarrow> Inr (next, st')))"

subsection \<open>Construction of a request (factory-level variant)\<close>

text \<open>\<^verbatim>\<open>state.contextInfo?.issuer\<close>.\<close>

definition issuerOf :: "state \<Rightarrow> jsval" where
  "issuerOf st = (case contextInfo st of None \<Rightarrow> JUndefined | Some ci \<Rightarrow> issuer ci)"

text \<open>
  \<^verbatim>\<open>if (!state.contextInfo) state.contextInfo = { issuer: '' }; state.contextInfo.issuer = v\<close>.
\<close>

definition setIssuer :: "state \<Rightarrow> string \<Rightarrow> state" where
  "setIssuer st v =
     st\<lparr>contextInfo :=
          Some (case contextInfo st of
                  None \<Rightarrow> \<lparr>issuer = JStr v, embroiderMeta = None\<rparr>
                | Some ci \<Rightarrow> ci\<lparr>issuer := JStr v\<rparr>)\<rparr>"

text \<open>
  The bookkeeping both \<^verbatim>\<open>from\<close> and the fallback resolver do with the query they matched:
  read the parameter \<^verbatim>\<open>f\<close> and, when it is not empty, record
  \<^verbatim>\<open>dirname(filename)\<close> \<open>\<mapsto>\<close> \<^verbatim>\<open>filename\<close>.
\<close>

definition trackVirtualModule :: "string option \<Rightarrow> tracker \<Rightarrow> tracker" where
  "trackVirtualModule queryMatch virtualModuleContexts =
     (case queryMatch of
        None \<Rightarrow> virtualModuleContexts
      | Some query \<Rightarrow>
          (case URLSearchParams_get (URLSearchParams_new query) ''f'' of
             None \<Rightarrow> virtualModuleContexts
           | Some filename \<Rightarrow>
               (if filename \<noteq> [] then AList.update (dirname filename) filename virtualModuleContexts
                else virtualModuleContexts)))"

text \<open>
  The issuer used for an implicit-modules request: the first tracked filename that
  contains both markers, otherwise one made from the context directory when that
  contains \<^verbatim>\<open>rewritten-app\<close>.
\<close>

definition fallbackIssuer :: "tracker \<Rightarrow> string \<Rightarrow> string option" where
  "fallbackIssuer virtualModuleContexts ctx =
     (case find (\<lambda>(c, filename). str_includes filename ''rewritten-app''
                    \<and> str_includes filename ''-embroider-implicit-modules.js'')
             virtualModuleContexts of
        Some (c, filename) \<Rightarrow> Some filename
      | None \<Rightarrow>
          (if str_includes ctx ''rewritten-app''
           then Some (ctx @ ''/-embroider-implicit-modules.js'') else None))"

text \<open>
  \<^verbatim>\<open>RspackModuleRequest.from\<close>. The result is what the call returns (\<open>Inl\<close> when it throws,
  \<open>Inr None\<close> when it declines with \<^verbatim>\<open>undefined\<close>), the record and the tracker as it leaves
  them.
\<close>

definition RspackModuleRequest_from ::
  "state \<Rightarrow> string \<Rightarrow> string \<Rightarrow> tracker
     \<Rightarrow> (jserror + moduleRequest option) \<times> state \<times> tracker" where
  "RspackModuleRequest_from st prefix root virtualModuleContexts =
     (case (request st, contextDir st) of
        (JStr req, JStr ctx) \<Rightarrow>
          if str_includes req virtualLoaderName then
            (Inr None, st, trackVirtualModule (regex_query ''?'' req) virtualModuleContexts)
          else if startsWith req ''!'' then (Inr None, st, virtualModuleContexts)
          else
            let repaired =
              (if \<not> truthy (issuerOf st) \<or> issuerOf st = JStr [] then
                 (if str_includes req ''-embroider-implicit-'' then
                    (case fallbackIssuer virtualModuleContexts ctx of
                       Some fi \<Rightarrow> Some (setIssuer st fi)
                     | None \<Rightarrow> Some st)
                  else
                    (case map_of virtualModuleContexts ctx of
                       Some virtualModule \<Rightarrow>
                         (if virtualModule \<noteq> [] then Some (setIssuer st virtualModule) else None)
                     | None \<Rightarrow> None))
               else Some st)
            in
            (case repaired of
               None \<Rightarrow> (Inr None, st, virtualModuleContexts)
             | Some st1 \<Rightarrow>
                 let hasValidIssuer = (case issuerOf st1 of JStr i \<Rightarrow> i \<noteq> [] | _ \<Rightarrow> False);
                     isImplicitModulesRequest = str_includes req ''-embroider-implicit-''
                 in if hasValidIssuer \<or> isImplicitModulesRequest then
                      (case RspackModuleRequest_new prefix root st1 False of
                         Inl e \<Rightarrow> (Inl e, st1, virtualModuleContexts)
                       | Inr r \<Rightarrow> (Inr (Some r), st1, virtualModuleContexts))
                    else (Inr None, st1, virtualModuleContexts))
      | _ \<Rightarrow> (Inr None, st, virtualModuleContexts))"

subsection \<open>The fallback resolver (factory-level variant)\<close>

text \<open>
  What the fallback resolver reaches outside the plugin: rspack's resolver (its callback
  receives an error or \<^verbatim>\<open>null\<close>, and a result that is a string, \<^verbatim>\<open>false\<close> or \<^verbatim>\<open>undefined\<close>),
  \<^verbatim>\<open>fs.existsSync\<close>, the reading and parsing of a package manifest, and the working
  directory \<^verbatim>\<open>path.resolve\<close> falls back on. A manifest is read as \<open>ReadThrows\<close> when
  \<^verbatim>\<open>readFileSync\<close> or \<^verbatim>\<open>JSON.parse\<close> throws or the parsed value is \<^verbatim>\<open>null\<close> (reading a field
  of it throws), otherwise as its \<^verbatim>\<open>module\<close> and \<^verbatim>\<open>main\<close> fields (\<open>JUndefined\<close> when absent).
\<close>

datatype packageJson = ReadThrows | PackageJson jsval jsval

record env =
  nativeResolve :: "string \<Rightarrow> string \<Rightarrow> jserror option \<times> jsval"
  existsSync :: "string \<Rightarrow> bool"
  readPackageJson :: "string \<Rightarrow> packageJson"
  cwd :: string

text \<open>The calls a resolution makes to them, in order.\<close>

datatype effect = NativeResolve string string | ExistsSync string | ReadFileSync string

record fallbackResult =
  outcome :: "jserror + resolution"
  newState :: state
  newTracker :: tracker
  effects :: "effect list"

definition candidatePackageDirs :: "string \<Rightarrow> string \<Rightarrow> string list" where
  "candidatePackageDirs ctx packageName =
     [path_join [ctx, ''node_modules'', packageName],
      path_join [ctx, ''..'', ''node_modules'', packageName],
      path_join [ctx, ''..'', ''..'', ''node_modules'', packageName]]"

definition candidatePaths :: "string \<Rightarrow> string \<Rightarrow> string list" where
  "candidatePaths packageDir subpath =
     [path_join [packageDir, ''src'', subpath @ ''.js''],
      path_join [packageDir, ''src'', subpath @ ''.ts''],
      path_join [packageDir, ''src'', subpath, ''index.js''],
      path_join [packageDir, ''src'', subpath, ''index.ts''],
      path_join [packageDir, subpath @ ''.js''],
      path_join [packageDir, subpath @ ''.ts''],
      path_join [packageDir, subpath, ''index.js''],
      path_join [packageDir, subpath, ''index.ts'']]"

text \<open>The inner loop of the subpath branch: the first candidate path that exists.\<close>

fun probeCandidatePaths :: "(string \<Rightarrow> bool) \<Rightarrow> string list \<Rightarrow> string option \<times> effect list" where
  "probeCandidatePaths ex [] = (None, [])"
| "probeCandidatePaths ex (candidatePath # others) =
     (if ex candidatePath then (Some candidatePath, [ExistsSync candidatePath])
      else (case probeCandidatePaths ex others of (r, es) \<Rightarrow> (r, ExistsSync candidatePath # es)))"

text \<open>
  The outer loop of the subpath branch: a package directory that does not exist is
  skipped; one that exists has its candidate paths probed, and the loop goes on to the
  next directory when none of them exists.
\<close>

fun probeSubpathDirs :: "(string \<Rightarrow> bool) \<Rightarrow> string \<Rightarrow> string list \<Rightarrow> string option \<times> effect list" where
  "probeSubpathDirs ex subpath [] = (None, [])"
| "probeSubpathDirs ex subpath (packageDir # others) =
     (if \<not> ex packageDir then
        (case probeSubpathDirs ex subpath others of (r, es) \<Rightarrow> (r, ExistsSync packageDir # es))
      else
        (case probeCandidatePaths ex (candidatePaths packageDir subpath) of
           (Some p, es) \<Rightarrow> (Some p, ExistsSync packageDir # es)
         | (None, es) \<Rightarrow>
             (case probeSubpathDirs ex subpath others of
                (r, es') \<Rightarrow> (r, ExistsSync packageDir # es @ es'))))"

text \<open>
  The loop over the entry points of a manifest. \<^verbatim>\<open>path.resolve\<close> throws a \<^verbatim>\<open>TypeError\<close> for
  an entry point that is not a string; the \<^verbatim>\<open>try\<close> around the loop catches it.
\<close>

datatype entryProbe = EntryFound string | EntryMissing | EntryThrew

fun probeEntryPoints ::
  "string \<Rightarrow> (string \<Rightarrow> bool) \<Rightarrow> string \<Rightarrow> jsval list \<Rightarrow> entryProbe \<times> effect list" where
  "probeEntryPoints wd ex packageDir [] = (EntryMissing, [])"
| "probeEntryPoints wd ex packageDir (entryPoint # others) =
     (case entryPoint of
        JStr ep \<Rightarrow>
          (let entryPath = path_resolve wd [packageDir, ep] in
           if ex entryPath then (EntryFound entryPath, [ExistsSync entryPath])
           else (case probeEntryPoints wd ex packageDir others of
                   (r, es) \<Rightarrow> (r, ExistsSync entryPath # es)))
      | _ \<Rightarrow> (EntryThrew, []))"

definition entryPoints :: "jsval \<Rightarrow> jsval \<Rightarrow> jsval list" where
  "entryPoints moduleField mainField =
     filter truthy
       [moduleField, mainField, JStr ''src/index.js'', JStr ''src/index.ts'',
        JStr ''index.js'', JStr ''index.ts'']"

text \<open>
  The loop over the package directories of the root branch. The loop goes on to the next
  directory when the directory or its manifest does not exist, when reading the manifest
  or resolving an entry point throws, and when no entry point exists.
\<close>

fun probeRootDirs :: "env \<Rightarrow> string list \<Rightarrow> string option \<times> effect list" where
  "probeRootDirs e [] = (None, [])"
| "probeRootDirs e (packageDir # others) =
     (if \<not> existsSync e packageDir then
        (case probeRootDirs e others of (r, es) \<Rightarrow> (r, ExistsSync packageDir # es))
      else
        let packageJsonPath = path_join [packageDir, ''package.json''] in
        if \<not> existsSync e packageJsonPath then
          (case probeRootDirs e others of
             (r, es) \<Rightarrow> (r, ExistsSync packageDir # ExistsSync packageJsonPath # es))
        else
          (case readPackageJson e packageJsonPath of
             ReadThrows \<Rightarrow>
               (case probeRootDirs e others of
                  (r, es) \<Rightarrow>
                    (r, ExistsSync packageDir # ExistsSync packageJsonPath
                          # ReadFileSync packageJsonPath # es))
           | PackageJson moduleField mainField \<Rightarrow>
               (case probeEntryPoints (cwd e) (existsSync e) packageDir
                       (entryPoints moduleField mainField) of
                  (EntryFound p, es) \<Rightarrow>
                    (Some p, ExistsSync packageDir # ExistsSync packageJsonPath
                               # ReadFileSync packageJsonPath # es)
                | (notFound, es) \<Rightarrow>
                    (case probeRootDirs e others of
                       (r, es') \<Rightarrow>
                         (r, ExistsSync packageDir # ExistsSync packageJsonPath
                               # ReadFileSync packageJsonPath # es @ es')))))"

text \<open>\<^verbatim>\<open>err || new Error(`Module not found: ${requestToResolve}`)\<close>.\<close>

definition notFoundError :: "jserror option \<Rightarrow> string \<Rightarrow> jserror" where
  "notFoundError err requestToResolve =
     (case err of Some e \<Rightarrow> e | None \<Rightarrow> JsError (''Module not found: '' @ requestToResolve))"

text \<open>
  The function \<^verbatim>\<open>getAdaptedResolve\<close> returns, applied to a request whose shared record is
  \<open>st\<close>. \<open>Inl\<close> in the outcome is a rejected promise: \<^verbatim>\<open>dirname\<close> and \<^verbatim>\<open>includes\<close> throw a
  \<^verbatim>\<open>TypeError\<close> inside the executor when \<^verbatim>\<open>fromFile\<close> or the record's request is not a
  string.
\<close>

definition getAdaptedResolve :: "env \<Rightarrow> tracker \<Rightarrow> moduleRequest \<Rightarrow> state \<Rightarrow> fallbackResult" where
  "getAdaptedResolve e virtualModuleContexts req st =
     (case (fromFile req, request st) of
        (JStr from_file, JStr requestToResolve) \<Rightarrow>
          let ctx = dirname from_file in
          if str_includes requestToResolve ''!'' then
            \<lparr> outcome = Inr Found, newState = st,
              newTracker =
                (if str_includes requestToResolve virtualLoaderName
                 then trackVirtualModule
                        (regex_query (virtualLoaderName @ ''?'') requestToResolve)
                        virtualModuleContexts
                 else virtualModuleContexts),
              effects = [] \<rparr>
          else
            (case nativeResolve e ctx requestToResolve of
               (err, result) \<Rightarrow>
                 let called = NativeResolve ctx requestToResolve;
                     notFound = (\<lambda>es. \<lparr> outcome = Inr (NotFound (Some (notFoundError err requestToResolve))),
                                         newState = st, newTracker = virtualModuleContexts,
                                         effects = called # es \<rparr>);
                     found = (\<lambda>p es. \<lparr> outcome = Inr Found, newState = st\<lparr>request := JStr p\<rparr>,
                                        newTracker = virtualModuleContexts,
                                        effects = called # es \<rparr>)
                 in
                 if err \<noteq> None \<or> \<not> truthy result then
                   (if (case err of
                          Some er \<Rightarrow> message er \<noteq> []
                                       \<and> str_includes (message er) ''PackagePathNotExported''
                        | None \<Rightarrow> False)
                    then
                      (case subpathMatch requestToResolve of
                         Some (packageName, subpath) \<Rightarrow>
                           (case probeSubpathDirs (existsSync e) subpath
                                   (candidatePackageDirs ctx packageName) of
                              (Some p, es) \<Rightarrow> found p es
                            | (None, es) \<Rightarrow> notFound es)
                       | None \<Rightarrow>
                           (case rootMatch requestToResolve of
                              Some packageName \<Rightarrow>
                                (case probeRootDirs e (candidatePackageDirs ctx packageName) of
                                   (Some p, es) \<Rightarrow> found p es
                                 | (None, es) \<Rightarrow> notFound es)
                            | None \<Rightarrow> notFound []))
                    else notFound [])
                 else \<lparr> outcome = Inr Found, newState = st,
                        newTracker = virtualModuleContexts, effects = [called] \<rparr>)
      | _ \<Rightarrow>
          \<lparr> outcome = Inl (JsTypeError ''The argument must be of type string''),
            newState = st, newTracker = virtualModuleContexts, effects = [] \<rparr>)"

subsection \<open>The resolve hook (factory-level variant)\<close>

text \<open>
  What the hook hands to the host's completion callback: \<^verbatim>\<open>callback()\<close>,
  \<^verbatim>\<open>callback(null)\<close> or \<^verbatim>\<open>callback(err)\<close>.
\<close>

datatype callbackArg = CallbackNoArgs | CallbackNull | CallbackError jserror

text \<open>
  The two handlers given to \<^verbatim>\<open>then\<close>: the first takes the resolution the engine's promise
  is fulfilled with, the second the error it is rejected with.
\<close>

fun onSettled :: "jserror + resolution \<Rightarrow> callbackArg" where
  "onSettled (Inr (NotFound err)) = CallbackNoArgs"
| "onSettled (Inr Found) = CallbackNull"
| "onSettled (Inl err) = CallbackError err"

text \<open>
  The generic resolver engine of \<^verbatim>\<open>@embroider/core\<close> is not part of the plugin: it is a
  parameter, which takes the fallback resolver, the request, the record and the tracker,
  and gives the way its promise settles with the record and the tracker as it leaves them.
\<close>

type_synonym engine =
  "(tracker \<Rightarrow> moduleRequest \<Rightarrow> state \<Rightarrow> fallbackResult) \<Rightarrow> moduleRequest \<Rightarrow> state \<Rightarrow> tracker
     \<Rightarrow> (jserror + resolution) \<times> state \<times> tracker"

text \<open>
  The function tapped on \<^verbatim>\<open>normalModuleFactory.hooks.resolve\<close>. \<open>Inl\<close> is an exception
  thrown out of the tap before any callback (by the constructor inside \<^verbatim>\<open>from\<close>).
\<close>

definition resolveHook ::
  "engine \<Rightarrow> env \<Rightarrow> string \<Rightarrow> string \<Rightarrow> state \<Rightarrow> tracker
     \<Rightarrow> (jserror + callbackArg) \<times> state \<times> tracker" where
  "resolveHook resolver e prefix root st virtualModuleContexts =
     (case RspackModuleRequest_from st prefix root virtualModuleContexts of
        (Inl err, st1, tr1) \<Rightarrow> (Inl err, st1, tr1)
      | (Inr None, st1, tr1) \<Rightarrow> (Inr CallbackNoArgs, st1, tr1)
      | (Inr (Some req), st1, tr1) \<Rightarrow>
          (case resolver (getAdaptedResolve e) req st1 tr1 of
             (settled, st2, tr2) \<Rightarrow> (Inr (onSettled settled), st2, tr2)))"

subsection \<open>The compilation-level variant\<close>

text \<open>
  Its \<^verbatim>\<open>from\<close> first repairs a missing issuer from the record's dependencies: for every
  dependency whose parent module's request matches the pattern of a virtual request, the
  issuer becomes the parameter \<^verbatim>\<open>f\<close> of the query (\<^verbatim>\<open>null\<close> when there is none) and the
  context directory its \<^verbatim>\<open>dirname\<close>. The assignment throws when \<^verbatim>\<open>contextInfo\<close> is missing,
  and \<^verbatim>\<open>dirname\<close> throws when the parameter is. \<open>virtualLoaderPath\<close> is the absolute
  path of \<^verbatim>\<open>virtual-loader.js\<close> beside the plugin.
\<close>

fun repairFromDependencies ::
  "string \<Rightarrow> string option list \<Rightarrow> state \<Rightarrow> jserror option \<times> state" where
  "repairFromDependencies virtualLoaderPath [] st = (None, st)"
| "repairFromDependencies virtualLoaderPath (dep # deps) st =
     (case (case dep of
              None \<Rightarrow> None
            | Some userRequest \<Rightarrow> regex_virtual_request (virtualLoaderPath @ ''?'') userRequest) of
        None \<Rightarrow> repairFromDependencies virtualLoaderPath deps st
      | Some query \<Rightarrow>
          (case contextInfo st of
             None \<Rightarrow> (Some (JsTypeError ''Cannot set properties of undefined (setting issuer)''), st)
           | Some ci \<Rightarrow>
               (case URLSearchParams_get (URLSearchParams_new query) ''f'' of
                  None \<Rightarrow>
                    (Some (JsTypeError ''The argument must be of type string''),
                     st\<lparr>contextInfo := Some (ci\<lparr>issuer := JNull\<rparr>)\<rparr>)
                | Some f \<Rightarrow>
                    repairFromDependencies virtualLoaderPath deps
                      (st\<lparr>contextInfo := Some (ci\<lparr>issuer := JStr f\<rparr>),
                          contextDir := JStr (dirname f)\<rparr>))))"

text \<open>
  The result is what the call returns (\<open>Inl\<close> when it throws, \<open>Inr None\<close> when it returns
  \<^verbatim>\<open>undefined\<close>) and the record as it leaves it.
\<close>

definition RspackModuleRequest_from_compilation ::
  "string \<Rightarrow> state \<Rightarrow> string \<Rightarrow> string \<Rightarrow> (jserror + moduleRequest option) \<times> state" where
  "RspackModuleRequest_from_compilation virtualLoaderPath st prefix root =
     (case (if \<not> truthy (issuerOf st) then
              (case dependencies st of
                 Some deps \<Rightarrow> repairFromDependencies virtualLoaderPath deps st
               | None \<Rightarrow> (None, st))
            else (None, st)) of
        (Some err, st1) \<Rightarrow> (Inl err, st1)
      | (None, st1) \<Rightarrow>
          (case (request st1, contextDir st1, issuerOf st1) of
             (JStr req, JStr ctx, JStr i) \<Rightarrow>
               if i \<noteq> [] \<and> \<not> str_includes req virtualLoaderName \<and> \<not> startsWith req ''!''
               then (case RspackModuleRequest_new prefix root st1 False of
                       Inl err \<Rightarrow> (Inl err, st1)
                     | Inr r \<Rightarrow> (Inr (Some r), st1))
               else (Inr None, st1)
           | _ \<Rightarrow> (Inr None, st1)))"

text \<open>
  Its fallback resolver runs the host's default resolve hook, which is found among the
  taps and is a parameter here: it gives the error it calls back with (\<open>None\<close> when it
  calls back without one) and the record as it leaves it.
\<close>

definition getAdaptedResolve_compilation ::
  "(state \<Rightarrow> jserror option \<times> state) \<Rightarrow> state \<Rightarrow> resolution \<times> state" where
  "getAdaptedResolve_compilation defaultResolve st =
     (case defaultResolve st of
        (Some err, st') \<Rightarrow> (NotFound (Some err), st')
      | (None, st') \<Rightarrow> (Found, st'))"

fun onSettled_compilation :: "jserror + resolution \<Rightarrow> callbackArg" where
  "onSettled_compilation (Inr (NotFound (Some err))) = CallbackError err"
| "onSettled_compilation (Inr (NotFound None)) = CallbackNull"
| "onSettled_compilation (Inr Found) = CallbackNull"
| "onSettled_compilation (Inl err) = CallbackError err"

type_synonym engine_compilation =
  "(state \<Rightarrow> resolution \<times> state) \<Rightarrow> moduleRequest \<Rightarrow> state \<Rightarrow> (jserror + resolution) \<times> state"

definition resolveHook_compilation ::
  "engine_compilation \<Rightarrow> (state \<Rightarrow> jserror option \<times> state) \<Rightarrow> string \<Rightarrow> string \<Rightarrow> string \<Rightarrow> state
     \<Rightarrow> (jserror + callbackArg) \<times> state" where
  "resolveHook_compilation resolver defaultResolve virtualLoaderPath prefix root st =
     (case RspackModuleRequest_from_compilation virtualLoaderPath st prefix root of
        (Inl err, st1) \<Rightarrow> (Inl err, st1)
      | (Inr None, st1) \<Rightarrow>
          (case defaultResolve st1 of
             (Some err, st2) \<Rightarrow> (Inr (CallbackError err), st2)
           | (None, st2) \<Rightarrow> (Inr CallbackNoArgs, st2))
      | (Inr (Some req), st1) \<Rightarrow>
          (case resolver (getAdaptedResolve_compilation defaultResolve) req st1 of
             (settled, st2) \<Rightarrow> (Inr (onSettled_compilation settled), st2)))"

subsection \<open>Predicates and example inputs used in the statements\<close>

text \<open>
  No parent module of a dependency of the record is a virtual request (or the record has
  no array of dependencies): the compilation-level \<^verbatim>\<open>from\<close> then has nothing to repair
  the issuer from.
\<close>

definition noVirtualParent :: "string \<Rightarrow> state \<Rightarrow> bool" where
  "noVirtualParent virtualLoaderPath st =
     (case dependencies st of
        None \<Rightarrow> True
      | Some deps \<Rightarrow>
          list_all (\<lambda>dep. case dep of
                             None \<Rightarrow> True
                           | Some userRequest \<Rightarrow>
                               regex_virtual_request (virtualLoaderPath @ ''?'') userRequest = None)
            deps)"

text \<open>
  Every filename the tracker holds is non-empty. The tracker starts empty and both writers
  record a filename only when it is non-empty (lemmas \<open>tracker_ok_from\<close> and
  \<open>tracker_ok_getAdaptedResolve\<close> below), so this holds of every tracker the plugin
  ever has.
\<close>

definition tracker_ok :: "tracker \<Rightarrow> bool" where
  "tracker_ok virtualModuleContexts =
     list_all (\<lambda>(c, filename). filename \<noteq> []) virtualModuleContexts"

text \<open>
  A normalized absolute path: a slash followed by at least one segment, the segments
  separated by single slashes, none of them empty, \<^verbatim>\<open>.\<close> or \<^verbatim>\<open>..\<close>. The candidate package
  directories of an absolute importing file are of this form (lemma
  \<open>candidate_dirs_normal\<close> below).
\<close>

definition clean_segment :: "string \<Rightarrow> bool" where
  "clean_segment s = (s \<noteq> [] \<and> s \<noteq> ''.'' \<and> s \<noteq> ''..'' \<and> CHR ''/'' \<notin> set s)"

definition normal_absolute :: "string \<Rightarrow> bool" where
  "normal_absolute p =
     (case p of
        [] \<Rightarrow> False
      | c # rest \<Rightarrow>
          c = CHR ''/'' \<and> rest \<noteq> [] \<and> list_all clean_segment (splitOn CHR ''/'' rest))"

text \<open>
  An engine that leaves the request as it is and asks the fallback resolver once, for
  each variant.
\<close>

definition askFallbackOnce :: engine where
  "askFallbackOnce fallback req st tr =
     (let r = fallback tr req st in (outcome r, newState r, newTracker r))"

definition askDefaultOnce :: engine_compilation where
  "askDefaultOnce fallback req st = (case fallback st of (res, st') \<Rightarrow> (Inr res, st'))"

text \<open>
  A native resolver that fails every request with the given message, a default resolve
  hook that does the same, a record for a specifier imported by a file, and an environment
  with the given files on disk, whose manifests all read \<^verbatim>\<open>{"main": "./index.js"}\<close>.
\<close>

definition failingNative :: "string \<Rightarrow> string \<Rightarrow> string \<Rightarrow> jserror option \<times> jsval" where
  "failingNative msg ctx req = (Some (JsError msg), JUndefined)"

definition failingDefault :: "string \<Rightarrow> state \<Rightarrow> jserror option \<times> state" where
  "failingDefault msg st = (Some (JsError msg), st)"

definition exampleState :: "string \<Rightarrow> string \<Rightarrow> state" where
  "exampleState req importer =
     \<lparr> request = JStr req, contextDir = JStr (dirname importer),
       contextInfo = Some \<lparr> issuer = JStr importer, embroiderMeta = None \<rparr>,
       dependencies = None \<rparr>"

definition exampleRequest :: "string \<Rightarrow> string \<Rightarrow> moduleRequest" where
  "exampleRequest req importer =
     \<lparr> babelLoaderPrefix = ''babel-loader!'', appRoot = ''/app'', isVirtual = False,
       specifier = JStr req, fromFile = JStr importer, meta = None \<rparr>"

definition exampleEnv :: "string \<Rightarrow> string list \<Rightarrow> env" where
  "exampleEnv msg files =
     \<lparr> nativeResolve = failingNative msg, existsSync = (\<lambda>p. p \<in> set files),
       readPackageJson = (\<lambda>p. PackageJson JUndefined (JStr ''./index.js'')),
       cwd = ''/work'' \<rparr>"

section \<open>Properties\<close>

subsection \<open>Auxiliary facts\<close>

lemma fst_case_keep [simp]: "fst (case p of (r, es) \<Rightarrow> (r, g es)) = fst p"
  by (cases p) simp

lemma find_append_first:
  "find P (xs @ ys) = (case find P xs of Some x \<Rightarrow> Some x | None \<Rightarrow> find P ys)"
  by (induction xs) auto

lemma filter_skip_absent:
  "\<forall>d \<in> set pre. \<not> ex d \<Longrightarrow> filter ex (pre @ rest) = filter ex rest"
  by (induction pre) auto

lemma startsWith_append: "startsWith s (a @ b) \<Longrightarrow> startsWith s a"
  by (induction s a rule: startsWith.induct) auto

lemma regex_query_includes: "regex_query (a @ b) s = Some q \<Longrightarrow> str_includes s a"
  by (induction s) (auto simp: Let_def split: if_splits dest: startsWith_append)

lemma issuerOf_setIssuer: "issuerOf (setIssuer st v) = JStr v"
  by (simp add: issuerOf_def setIssuer_def split: option.splits)

text \<open>The tracker's invariant.\<close>

lemma list_all_update:
  "list_all P al \<Longrightarrow> P (k, v) \<Longrightarrow> list_all P (AList.update k v al)"
  by (induction al) auto

lemma tracker_ok_trackVirtualModule:
  "tracker_ok tr \<Longrightarrow> tracker_ok (trackVirtualModule q tr)"
  by (auto simp: tracker_ok_def trackVirtualModule_def intro: list_all_update
        split: option.splits)

lemma tracker_ok_from:
  "tracker_ok tr \<Longrightarrow> tracker_ok (snd (snd (RspackModuleRequest_from st prefix root tr)))"
  by (auto simp: RspackModuleRequest_from_def Let_def tracker_ok_trackVirtualModule
        split: jsval.splits option.splits sum.splits)

lemma tracker_ok_getAdaptedResolve:
  "tracker_ok tr \<Longrightarrow> tracker_ok (newTracker (getAdaptedResolve e tr req st))"
  by (auto simp: getAdaptedResolve_def Let_def tracker_ok_trackVirtualModule
        split: jsval.splits option.splits prod.splits)

text \<open>The loops of manual resolution find the first candidate that exists.\<close>

lemma probeCandidatePaths_find: "fst (probeCandidatePaths ex ps) = find ex ps"
  by (induction ps) (auto split: prod.splits)

lemma probeSubpathDirs_find:
  "fst (probeSubpathDirs ex sub ds)
     = find ex (concat (map (\<lambda>d. candidatePaths d sub) (filter ex ds)))"
proof (induction ds)
  case Nil
  show ?case by simp
next
  case (Cons d ds)
  show ?case
  proof (cases "ex d")
    case False
    with Cons show ?thesis by simp
  next
    case True
    obtain r es where pc: "probeCandidatePaths ex (candidatePaths d sub) = (r, es)"
      by (cases "probeCandidatePaths ex (candidatePaths d sub)")
    then have r: "r = find ex (candidatePaths d sub)"
      using probeCandidatePaths_find [of ex "candidatePaths d sub"] by simp
    show ?thesis
      using True pc r Cons
      by (cases r) (auto simp: find_append_first split: prod.splits option.splits)
  qed
qed




text \<open>
  Under an export-restricted failure for a subpath import, the outcome is decided by the
  first existing candidate path of the existing package directories.
\<close>

lemma manual_subpath_outcome:
  assumes "fromFile req = JStr importer" and "request st = JStr spec"
      and "\<not> str_includes spec ''!''"
      and "nativeResolve e (dirname importer) spec = (Some err, result)"
      and "str_includes (message err) ''PackagePathNotExported''"
      and "subpathMatch spec = Some (packageName, subpath)"
  shows "(case find (existsSync e)
              (concat (map (\<lambda>packageDir. candidatePaths packageDir subpath)
                 (filter (existsSync e) (candidatePackageDirs (dirname importer) packageName)))) of
            Some target \<Rightarrow>
              outcome (getAdaptedResolve e tr req st) = Inr Found
              \<and> newState (getAdaptedResolve e tr req st) = st\<lparr>request := JStr target\<rparr>
          | None \<Rightarrow>
              outcome (getAdaptedResolve e tr req st) = Inr (NotFound (Some err))
              \<and> newState (getAdaptedResolve e tr req st) = st)"
proof -
  have ne: "message err \<noteq> []"
    using assms(5) by (cases "message err") auto
  obtain r es where ps: "probeSubpathDirs (existsSync e) subpath
      (candidatePackageDirs (dirname importer) packageName) = (r, es)"
    by (cases "probeSubpathDirs (existsSync e) subpath
      (candidatePackageDirs (dirname importer) packageName)")
  then have r: "find (existsSync e)
              (concat (map (\<lambda>packageDir. candidatePaths packageDir subpath)
                 (filter (existsSync e) (candidatePackageDirs (dirname importer) packageName)))) = r"
    using probeSubpathDirs_find [of "existsSync e" subpath
        "candidatePackageDirs (dirname importer) packageName"] by simp
  show ?thesis
    unfolding r using assms(1-6) ne ps
    by (cases r) (simp_all add: getAdaptedResolve_def Let_def notFoundError_def)
qed

text \<open>The compilation-level repair changes nothing when no dependency matches.\<close>

lemma repair_no_match:
  "list_all (\<lambda>dep. case dep of None \<Rightarrow> True
        | Some u \<Rightarrow> regex_virtual_request (vlp @ ''?'') u = None) deps
   \<Longrightarrow> repairFromDependencies vlp deps st = (None, st)"
  by (induction deps) (auto split: option.splits)

lemma from_declines_unmodified:
  "RspackModuleRequest_from st prefix root tr = (Inr None, st', tr') \<Longrightarrow> st' = st"
  by (auto simp: RspackModuleRequest_from_def Let_def issuerOf_setIssuer
       split: jsval.splits if_splits option.splits sum.splits)

lemma from_compilation_declines_unmodified:
  assumes "RspackModuleRequest_from_compilation vlp st prefix root = (Inr None, st')"
      and "truthy (issuerOf st) \<or> noVirtualParent vlp st"
  shows "st' = st"
proof -
  have "(if \<not> truthy (issuerOf st) then
              (case dependencies st of
                 Some deps \<Rightarrow> repairFromDependencies vlp deps st
               | None \<Rightarrow> (None, st))
            else (None, st)) = (None, st)"
    using assms(2) by (auto simp: noVirtualParent_def repair_no_match split: option.splits)
  with assms(1) show ?thesis
    by (auto simp: RspackModuleRequest_from_compilation_def
          split: jsval.splits if_splits sum.splits)
qed

text \<open>
  When a dependency matches, the repair leaves the specifier alone and sets the issuer and
  the context directory from the last dependency that matches.
\<close>

lemma repair_frame:
  "repairFromDependencies vlp deps st = (None, st')
   \<Longrightarrow> request st' = request st \<and> dependencies st' = dependencies st"
proof (induction deps arbitrary: st)
  case Nil
  then show ?case by simp
next
  case (Cons dep deps)
  show ?case
  proof (cases "case dep of None \<Rightarrow> None
            | Some userRequest \<Rightarrow> regex_virtual_request (vlp @ ''?'') userRequest")
    case None
    with Cons.prems have "repairFromDependencies vlp deps st = (None, st')"
      by simp
    then show ?thesis by (rule Cons.IH)
  next
    case (Some query)
    with Cons.prems obtain ci f where ci: "contextInfo st = Some ci"
      and f: "URLSearchParams_get (URLSearchParams_new query) ''f'' = Some f"
      and rest: "repairFromDependencies vlp deps
                  (st\<lparr>contextInfo := Some (ci\<lparr>issuer := JStr f\<rparr>),
                      contextDir := JStr (dirname f)\<rparr>) = (None, st')"
      by (auto split: option.splits)
    from Cons.IH [OF rest] show ?thesis by simp
  qed
qed

lemma repair_rewrites:
  assumes "repairFromDependencies vlp deps st = (None, st')"
      and "\<not> list_all (\<lambda>dep. case dep of None \<Rightarrow> True
              | Some u \<Rightarrow> regex_virtual_request (vlp @ ''?'') u = None) deps"
  shows "\<exists>earlier userRequest later query f.
           deps = earlier @ Some userRequest # later
         \<and> list_all (\<lambda>dep. case dep of None \<Rightarrow> True
              | Some u \<Rightarrow> regex_virtual_request (vlp @ ''?'') u = None) later
         \<and> regex_virtual_request (vlp @ ''?'') userRequest = Some query
         \<and> URLSearchParams_get (URLSearchParams_new query) ''f'' = Some f
         \<and> issuerOf st' = JStr f \<and> contextDir st' = JStr (dirname f)"
  using assms
proof (induction deps arbitrary: st)
  case Nil
  then show ?case by simp
next
  case (Cons dep deps)
  let ?quiet = "list_all (\<lambda>dep. case dep of None \<Rightarrow> True
              | Some u \<Rightarrow> regex_virtual_request (vlp @ ''?'') u = None)"
  show ?case
  proof (cases "case dep of None \<Rightarrow> None
            | Some userRequest \<Rightarrow> regex_virtual_request (vlp @ ''?'') userRequest")
    case None
    with Cons.prems have run: "repairFromDependencies vlp deps st = (None, st')"
      by simp
    from None Cons.prems(2) have loud: "\<not> ?quiet deps"
      by (cases dep) auto
    from Cons.IH [OF run loud] obtain earlier userRequest later query f where
      "deps = earlier @ Some userRequest # later" "?quiet later"
      "regex_virtual_request (vlp @ ''?'') userRequest = Some query"
      "URLSearchParams_get (URLSearchParams_new query) ''f'' = Some f"
      "issuerOf st' = JStr f" "contextDir st' = JStr (dirname f)"
      by blast
    then have "dep # deps = (dep # earlier) @ Some userRequest # later"
      by simp
    with \<open>?quiet later\<close> \<open>regex_virtual_request (vlp @ ''?'') userRequest = Some query\<close>
      \<open>URLSearchParams_get (URLSearchParams_new query) ''f'' = Some f\<close>
      \<open>issuerOf st' = JStr f\<close> \<open>contextDir st' = JStr (dirname f)\<close>
    show ?thesis by blast
  next
    case (Some query)
    then obtain u where dep: "dep = Some u" and q: "regex_virtual_request (vlp @ ''?'') u = Some query"
      by (cases dep) auto
    from Some Cons.prems(1) obtain ci f where ci: "contextInfo st = Some ci"
      and f: "URLSearchParams_get (URLSearchParams_new query) ''f'' = Some f"
      and rest: "repairFromDependencies vlp deps
                  (st\<lparr>contextInfo := Some (ci\<lparr>issuer := JStr f\<rparr>),
                      contextDir := JStr (dirname f)\<rparr>) = (None, st')"
      by (auto split: option.splits)
    let ?st2 = "st\<lparr>contextInfo := Some (ci\<lparr>issuer := JStr f\<rparr>), contextDir := JStr (dirname f)\<rparr>"
    show ?thesis
    proof (cases "?quiet deps")
      case True
      with rest have "st' = ?st2"
        using repair_no_match [of vlp deps ?st2] by simp
      then have "issuerOf st' = JStr f" "contextDir st' = JStr (dirname f)"
        by (simp_all add: issuerOf_def)
      moreover have "dep # deps = [] @ Some u # deps"
        by (simp add: dep)
      ultimately show ?thesis
        using True q f by blast
    next
      case False
      from Cons.IH [OF rest False] obtain earlier userRequest later query' f' where
        "deps = earlier @ Some userRequest # later" "?quiet later"
        "regex_virtual_request (vlp @ ''?'') userRequest = Some query'"
        "URLSearchParams_get (URLSearchParams_new query') ''f'' = Some f'"
        "issuerOf st' = JStr f'" "contextDir st' = JStr (dirname f')"
        by blast
      then have "dep # deps = (dep # earlier) @ Some userRequest # later"
        by simp
      with \<open>?quiet later\<close> \<open>regex_virtual_request (vlp @ ''?'') userRequest = Some query'\<close>
        \<open>URLSearchParams_get (URLSearchParams_new query') ''f'' = Some f'\<close>
        \<open>issuerOf st' = JStr f'\<close> \<open>contextDir st' = JStr (dirname f')\<close>
      show ?thesis by blast
    qed
  qed
qed

lemma from_compilation_declines_rewritten:
  assumes "RspackModuleRequest_from_compilation vlp st prefix root = (Inr None, st')"
      and "\<not> truthy (issuerOf st)" and "\<not> noVirtualParent vlp st"
  shows "\<exists>deps earlier userRequest later query f.
           dependencies st = Some deps
         \<and> deps = earlier @ Some userRequest # later
         \<and> list_all (\<lambda>dep. case dep of None \<Rightarrow> True
              | Some u \<Rightarrow> regex_virtual_request (vlp @ ''?'') u = None) later
         \<and> regex_virtual_request (vlp @ ''?'') userRequest = Some query
         \<and> URLSearchParams_get (URLSearchParams_new query) ''f'' = Some f
         \<and> issuerOf st' = JStr f \<and> contextDir st' = JStr (dirname f)
         \<and> request st' = request st \<and> dependencies st' = dependencies st"
proof -
  from assms(3) obtain deps where deps: "dependencies st = Some deps"
    and loud: "\<not> list_all (\<lambda>dep. case dep of None \<Rightarrow> True
              | Some u \<Rightarrow> regex_virtual_request (vlp @ ''?'') u = None) deps"
    by (auto simp: noVirtualParent_def split: option.splits)
  obtain err st1 where run: "repairFromDependencies vlp deps st = (err, st1)"
    by (cases "repairFromDependencies vlp deps st")
  have "err = None \<and> st1 = st'"
    using assms(1,2) deps run
    by (cases err)
       (auto simp: RspackModuleRequest_from_compilation_def
          split: jsval.splits if_splits sum.splits)
  with run have run': "repairFromDependencies vlp deps st = (None, st')"
    by simp
  from repair_rewrites [OF run' loud] repair_frame [OF run'] deps
  show ?thesis by blast
qed

text \<open>Joining and resolving under a normalized absolute directory.\<close>

lemma splitOn_nonempty: "splitOn d s \<noteq> []"
  by (induction s) (auto split: list.splits)

lemma splitOn_append: "splitOn d (xs @ d # ys) = splitOn d xs @ splitOn d ys"
proof (induction xs)
  case Nil
  show ?case by simp
next
  case (Cons c xs)
  then show ?case
    using splitOn_nonempty [of d xs] by (cases "splitOn d xs") auto
qed

lemma joinWith_splitOn: "joinWith [d] (splitOn d s) = s"
proof (induction s)
  case Nil
  show ?case by simp
next
  case (Cons c s)
  show ?case
  proof (cases "c = d")
    case True
    then show ?thesis
      using Cons splitOn_nonempty [of d s] by (cases "splitOn d s") auto
  next
    case False
    then show ?thesis
      using Cons splitOn_nonempty [of d s]
      by (cases "splitOn d s"; cases "tl (splitOn d s)") auto
  qed
qed


lemma fold_clean:
  "list_all clean_segment segs \<Longrightarrow> fold (normalize_step a) segs kept = rev segs @ kept"
  by (induction segs arbitrary: kept) (auto simp: clean_segment_def)

lemma splitOn_absent: "d \<notin> set xs \<Longrightarrow> splitOn d xs = [xs]"
  by (induction xs) auto



lemma joinWith_append:
  "xs \<noteq> [] \<Longrightarrow> ys \<noteq> [] \<Longrightarrow> joinWith d (xs @ ys) = joinWith d xs @ d @ joinWith d ys"
  by (induction d xs rule: joinWith.induct) (auto simp: neq_Nil_conv)

lemma splitOn_joinWith:
  "segs \<noteq> [] \<Longrightarrow> \<forall>s \<in> set segs. CHR ''/'' \<notin> set s
   \<Longrightarrow> splitOn CHR ''/'' (joinWith ''/'' segs) = segs"
proof (induction "''/''" segs rule: joinWith.induct)
  case 1
  then show ?case by simp
next
  case (2 x)
  then show ?case by (simp add: splitOn_absent)
next
  case (3 x y ys)
  have "splitOn CHR ''/'' (x @ CHR ''/'' # joinWith ''/'' (y # ys))
      = splitOn CHR ''/'' x @ splitOn CHR ''/'' (joinWith ''/'' (y # ys))"
    by (rule splitOn_append)
  with 3 show ?case by (simp add: splitOn_absent)
qed

lemma splitOn_no_sep: "seg \<in> set (splitOn d s) \<Longrightarrow> d \<notin> set seg"
proof (induction s arbitrary: seg)
  case Nil
  then show ?case by simp
next
  case (Cons c s)
  then show ?case
    using splitOn_nonempty [of d s]
    by (cases "splitOn d s") (auto split: if_splits)
qed

lemma step_keeps_clean:
  "list_all clean_segment kept \<Longrightarrow> CHR ''/'' \<notin> set seg
   \<Longrightarrow> list_all clean_segment (normalize_step False seg kept)"
  by (cases kept) (auto simp: clean_segment_def)

lemma fold_keeps_clean:
  "list_all clean_segment kept \<Longrightarrow> \<forall>seg \<in> set segs. CHR ''/'' \<notin> set seg
   \<Longrightarrow> list_all clean_segment (fold (normalize_step False) segs kept)"
proof (induction segs arbitrary: kept)
  case Nil
  then show ?case by simp
next
  case (Cons seg segs)
  have "list_all clean_segment (normalize_step False seg kept)"
    using Cons.prems by (intro step_keeps_clean) auto
  then have "list_all clean_segment (fold (normalize_step False) segs (normalize_step False seg kept))"
    using Cons.prems by (intro Cons.IH) auto
  then show ?case by (simp del: normalize_step.simps)
qed

lemma clean_last: "segs \<noteq> [] \<Longrightarrow> list_all clean_segment segs
  \<Longrightarrow> joinWith ''/'' segs \<noteq> [] \<and> last (joinWith ''/'' segs) \<noteq> CHR ''/''"
proof (induction "''/''" segs rule: joinWith.induct)
  case 1
  then show ?case by simp
next
  case (2 x)
  then have x: "x \<noteq> []" "CHR ''/'' \<notin> set x"
    by (simp_all add: clean_segment_def)
  then show ?case
    by (metis joinWith.simps(2) last_in_set)
next
  case (3 x y ys)
  then show ?case by (auto simp: clean_segment_def)
qed

lemma normalize_under_root:
  assumes "ctx = CHR ''/'' # rest"
      and "\<forall>s \<in> set up. CHR ''/'' \<notin> set s"
      and "list_all clean_segment down" and "down \<noteq> []"
  shows "normal_absolute (path_normalize (ctx @ ''/'' @ joinWith ''/'' (up @ down)))"
proof -
  let ?path = "ctx @ ''/'' @ joinWith ''/'' (up @ down)"
  let ?kept = "fold (normalize_step False) (splitOn CHR ''/'' ctx @ up) []"
  have nosep: "\<forall>s \<in> set (up @ down). CHR ''/'' \<notin> set s"
    using assms(2,3) by (auto simp: list_all_iff clean_segment_def)
  have "splitOn CHR ''/'' ?path
      = splitOn CHR ''/'' ctx @ splitOn CHR ''/'' (joinWith ''/'' (up @ down))"
    using splitOn_append [of "CHR ''/''" ctx "joinWith ''/'' (up @ down)"] by simp
  also have "splitOn CHR ''/'' (joinWith ''/'' (up @ down)) = up @ down"
    using assms(4) nosep by (intro splitOn_joinWith) auto
  finally have pieces: "splitOn CHR ''/'' ?path = (splitOn CHR ''/'' ctx @ up) @ down"
    by simp
  have kept: "list_all clean_segment ?kept"
    using assms(2) by (intro fold_keeps_clean) (auto dest: splitOn_no_sep)
  have "fold (normalize_step False) ((splitOn CHR ''/'' ctx @ up) @ down) [] = rev down @ ?kept"
    using fold_clean [OF assms(3), of False ?kept] by simp
  then have ns: "normalizeString ?path False = joinWith ''/'' (rev ?kept @ down)"
    unfolding normalizeString_def pieces by simp
  have all: "list_all clean_segment (rev ?kept @ down)" and ne: "rev ?kept @ down \<noteq> []"
    using kept assms(3,4) by auto
  have p: "joinWith ''/'' (rev ?kept @ down) \<noteq> []"
    using clean_last [OF ne all] by simp
  have tail: "joinWith ''/'' down \<noteq> []" "last (joinWith ''/'' down) \<noteq> CHR ''/''"
    using clean_last [OF assms(4,3)] by simp_all
  have "joinWith ''/'' (up @ down) \<noteq> []
      \<and> last (joinWith ''/'' (up @ down)) = last (joinWith ''/'' down)"
  proof (cases "up = []")
    case True
    with tail show ?thesis by simp
  next
    case False
    then have "joinWith ''/'' (up @ down) = joinWith ''/'' up @ ''/'' @ joinWith ''/'' down"
      using assms(4) by (rule joinWith_append)
    with tail show ?thesis by simp
  qed
  then have trail: "last ?path \<noteq> CHR ''/''"
    using tail by simp
  define P where "P = ?path"
  define N where "N = joinWith ''/'' (rev ?kept @ down)"
  have "P \<noteq> []" "hd P = CHR ''/''" "last P \<noteq> CHR ''/''" "normalizeString P False = N" "N \<noteq> []"
    using p trail ns by (simp_all add: P_def N_def assms(1))
  then have "path_normalize P = CHR ''/'' # N"
    by (simp add: path_normalize_def Let_def)
  then have "path_normalize ?path = CHR ''/'' # joinWith ''/'' (rev ?kept @ down)"
    by (simp only: P_def N_def)
  moreover have "splitOn CHR ''/'' (joinWith ''/'' (rev ?kept @ down)) = rev ?kept @ down"
    using ne all by (intro splitOn_joinWith) (auto simp: list_all_iff clean_segment_def)
  ultimately show ?thesis
    using p all by (simp add: normal_absolute_def)
qed

lemma dirname_scan_positive: "dirname_scan cs m = Some e \<Longrightarrow> 0 < e"
  by (induction cs m rule: dirname_scan.induct) (auto split: if_splits)

lemma dirname_absolute: "\<exists>rest. dirname (CHR ''/'' # p) = CHR ''/'' # rest"
  by (auto simp: dirname_def Let_def take_Cons' split: option.splits dest: dirname_scan_positive)

lemma candidate_dirs_normal:
  assumes "d \<in> set (candidatePackageDirs (dirname (CHR ''/'' # p)) ''@scope/pkg'')"
  shows "normal_absolute d"
proof -
  obtain rest where ctx: "dirname (CHR ''/'' # p) = CHR ''/'' # rest"
    using dirname_absolute by blast
  let ?down = "[''node_modules'', ''@scope'', ''pkg'']"
  have down: "list_all clean_segment ?down" "?down \<noteq> []"
    by (simp_all add: clean_segment_def)
  have n0: "normal_absolute (path_normalize ((CHR ''/'' # rest) @ ''/'' @ joinWith ''/'' ([] @ ?down)))"
    by (rule normalize_under_root [OF refl _ down]) simp
  have n1: "normal_absolute (path_normalize ((CHR ''/'' # rest) @ ''/'' @ joinWith ''/'' ([''..''] @ ?down)))"
    by (rule normalize_under_root [OF refl _ down]) simp
  have n2: "normal_absolute (path_normalize ((CHR ''/'' # rest) @ ''/'' @ joinWith ''/'' ([''..'', ''..''] @ ?down)))"
    by (rule normalize_under_root [OF refl _ down]) simp
  from assms n0 n1 n2 show ?thesis
    unfolding ctx by (auto simp: candidatePackageDirs_def path_join_def)
qed

lemma join_under_normal:
  assumes "normal_absolute d" and "list_all clean_segment (splitOn CHR ''/'' rel)"
  shows "path_normalize (d @ ''/'' @ rel) = d @ ''/'' @ rel"
proof -
  from assms(1) obtain t where d: "d = CHR ''/'' # t" and t: "t \<noteq> []"
    and clean: "list_all clean_segment (splitOn CHR ''/'' t)"
    by (auto simp: normal_absolute_def split: list.splits)
  let ?a = "splitOn CHR ''/'' t" and ?b = "splitOn CHR ''/'' rel"
  have jb: "joinWith ''/'' ?b = rel" and ja: "joinWith ''/'' ?a = t"
    by (rule joinWith_splitOn)+
  have rel: "rel \<noteq> []" "last rel \<noteq> CHR ''/''"
    using clean_last [OF splitOn_nonempty assms(2)] jb by simp_all
  have "splitOn CHR ''/'' (d @ ''/'' @ rel) = [] # ?a @ ?b"
    using splitOn_append [of "CHR ''/''" t rel] by (simp add: d)
  moreover have "fold (normalize_step False) ([] # ?a @ ?b) [] = rev ?b @ rev ?a"
    using fold_clean [OF clean, of False "[]"] fold_clean [OF assms(2), of False "rev ?a"] by simp
  ultimately have "normalizeString (d @ ''/'' @ rel) False = joinWith ''/'' (?a @ ?b)"
    by (simp add: normalizeString_def)
  also have "\<dots> = t @ ''/'' @ rel"
    using joinWith_append [OF splitOn_nonempty splitOn_nonempty, of "''/''" "CHR ''/''" t "CHR ''/''" rel]
    by (simp add: ja jb)
  finally have ns: "normalizeString (CHR ''/'' # t @ CHR ''/'' # rel) False = t @ CHR ''/'' # rel"
    by (simp add: d)
  show ?thesis
    using rel t by (simp add: path_normalize_def ns d Let_def)
qed

lemma join_src_example:
  assumes "normal_absolute d"
  shows "path_join [d, ''src'', ''deep/path'' @ ''.ts''] = d @ ''/src/deep/path.ts''"
    and "path_join [d, ''src'', ''deep/path'' @ ''.js''] = d @ ''/src/deep/path.js''"
proof -
  have dne: "d \<noteq> []"
    using assms by (auto simp: normal_absolute_def)
  have "path_normalize (d @ ''/'' @ ''src/deep/path.ts'') = d @ ''/'' @ ''src/deep/path.ts''"
    by (rule join_under_normal [OF assms]) (simp add: clean_segment_def)
  then show "path_join [d, ''src'', ''deep/path'' @ ''.ts''] = d @ ''/src/deep/path.ts''"
    using dne by (simp add: path_join_def)
  have "path_normalize (d @ ''/'' @ ''src/deep/path.js'') = d @ ''/'' @ ''src/deep/path.js''"
    by (rule join_under_normal [OF assms]) (simp add: clean_segment_def)
  then show "path_join [d, ''src'', ''deep/path'' @ ''.js''] = d @ ''/src/deep/path.js''"
    using dne by (simp add: path_join_def)
qed

text \<open>Serializing a query string and parsing it back.\<close>

lemma of_char_less_256: "(of_char c :: nat) < 256"
  by (metis of_char_of char_of_char mod_less_divisor zero_less_numeral)

lemma hex_val_hex_digit: "n < 16 \<Longrightarrow> hex_val (hex_digit n) = Some n"
  by (auto simp: hex_val_def hex_digit_def Let_def)

lemma hex_digit_not_special:
  "n < 16 \<Longrightarrow> hex_digit n \<noteq> CHR ''+'' \<and> hex_digit n \<noteq> CHR ''&'' \<and> hex_digit n \<noteq> CHR ''=''
     \<and> hex_digit n \<noteq> CHR ''!'' \<and> hex_digit n \<noteq> CHR ''%''"
  by (auto simp: hex_digit_def char_of_eq_iff take_bit_eq_mod)

lemma unreserved_not_special:
  "c \<in> set urlencoded_unreserved \<Longrightarrow>
     c \<noteq> CHR ''+'' \<and> c \<noteq> CHR ''&'' \<and> c \<noteq> CHR ''='' \<and> c \<noteq> CHR ''!'' \<and> c \<noteq> CHR ''%''"
  by (auto simp: urlencoded_unreserved_def)

lemma nibbles: "(of_char c :: nat) div 16 < 16" "(of_char c :: nat) mod 16 < 16"
  using of_char_less_256 [of c] by presburger+

lemma urlencoded_byte_clean:
  "x \<in> set (urlencoded_byte c) \<Longrightarrow> x \<noteq> CHR ''&'' \<and> x \<noteq> CHR ''='' \<and> x \<noteq> CHR ''!''"
  using hex_digit_not_special [OF nibbles(1) [of c]] hex_digit_not_special [OF nibbles(2) [of c]]
  by (auto simp: urlencoded_byte_def dest: unreserved_not_special split: if_splits)

lemma urlencoded_serialize_clean:
  "x \<in> set (urlencoded_serialize s) \<Longrightarrow> x \<noteq> CHR ''&'' \<and> x \<noteq> CHR ''='' \<and> x \<noteq> CHR ''!''"
  by (auto simp: urlencoded_serialize_def dest: urlencoded_byte_clean)

lemma decode_byte:
  "percent_decode (map (\<lambda>c. if c = CHR ''+'' then CHR '' '' else c) (urlencoded_byte c @ rest))
     = c # percent_decode (map (\<lambda>c. if c = CHR ''+'' then CHR '' '' else c) rest)"
proof -
  have rebuilt: "char_of (16 * ((of_char c :: nat) div 16) + (of_char c :: nat) mod 16) = c"
    by simp
  show ?thesis
    using hex_digit_not_special [OF nibbles(1) [of c]] hex_digit_not_special [OF nibbles(2) [of c]]
      hex_val_hex_digit [OF nibbles(1) [of c]] hex_val_hex_digit [OF nibbles(2) [of c]] rebuilt
    by (auto simp: urlencoded_byte_def dest: unreserved_not_special)
qed

lemma percent_decode_serialize:
  "percent_decode (map (\<lambda>c. if c = CHR ''+'' then CHR '' '' else c) (urlencoded_serialize s)) = s"
proof (induction s)
  case Nil
  show ?case by (simp add: urlencoded_serialize_def)
next
  case (Cons c s)
  have "urlencoded_serialize (c # s) = urlencoded_byte c @ urlencoded_serialize s"
    by (simp add: urlencoded_serialize_def)
  then show ?case using Cons decode_byte [of c "urlencoded_serialize s"] by simp
qed

lemma utf8_decode_well_formed: "well_formed s \<Longrightarrow> utf8_decode s = s"
proof (induction s rule: well_formed.induct)
  case 1
  show ?case by simp
next
  case (2 b bs)
  show ?case
  proof (cases "(of_char b :: nat) < 0x80")
    case True
    with "2.IH" "2.prems" show ?thesis by simp
  next
    case False
    note hi = this
    from "2.prems" hi obtain needed lo hi' where lead: "utf8_lead b = Some (needed, lo, hi')"
      by (auto split: option.splits)
    from "2.prems" hi lead obtain c1 r1 where bs: "bs = c1 # r1" and c1: "in_range c1 lo hi'"
      by (auto split: list.splits)
    show ?thesis
    proof (cases "needed = 1")
      case True
      with "2.IH" "2.prems" hi lead bs c1 show ?thesis by simp
    next
      case False
      note n1 = this
      from "2.prems" hi lead bs c1 n1 obtain c2 r2 where r1: "r1 = c2 # r2" and c2: "in_range c2 0x80 0xBF"
        by (auto split: list.splits)
      show ?thesis
      proof (cases "needed = 2")
        case True
        with "2.IH" "2.prems" hi lead bs c1 n1 r1 c2 show ?thesis by simp
      next
        case False
        note n2 = this
        from "2.prems" hi lead bs c1 n1 r1 c2 n2 obtain c3 r3 where r2: "r2 = c3 # r3" and c3: "in_range c3 0x80 0xBF"
          by (auto split: list.splits)
        with "2.IH" "2.prems" hi lead bs c1 n1 r1 c2 n2 show ?thesis by simp
      qed
    qed
  qed
qed

lemma urlencoded_decode_serialize:
  "well_formed s \<Longrightarrow> urlencoded_decode (urlencoded_serialize s) = s"
  by (simp add: urlencoded_decode_def percent_decode_serialize utf8_decode_well_formed)

lemma splitOn_first: "d \<notin> set xs \<Longrightarrow> splitOn d (xs @ d # ys) = xs # splitOn d ys"
  by (induction xs) auto


lemma params_roundtrip:
  assumes "well_formed f" and "well_formed a"
  shows "URLSearchParams_new (URLSearchParams_toString [(''f'', f), (''a'', a)])
           = [(''f'', f), (''a'', a)]"
proof -
  define Q1 where "Q1 = ''f='' @ urlencoded_serialize f"
  define Q2 where "Q2 = ''a='' @ urlencoded_serialize a"
  have ser: "urlencoded_serialize ''f'' = ''f''" "urlencoded_serialize ''a'' = ''a''"
    by (simp_all add: urlencoded_serialize_def urlencoded_byte_def urlencoded_unreserved_def)
  have str: "URLSearchParams_toString [(''f'', f), (''a'', a)] = Q1 @ CHR ''&'' # Q2"
    by (simp add: URLSearchParams_toString_def ser Q1_def Q2_def)
  have noamp: "CHR ''&'' \<notin> set Q1" "CHR ''&'' \<notin> set Q2"
    unfolding Q1_def Q2_def using urlencoded_serialize_clean by fastforce+
  have pieces: "splitOn CHR ''&'' (Q1 @ CHR ''&'' # Q2) = [Q1, Q2]"
    using splitOn_first [OF noamp(1), of Q2] splitOn_absent [OF noamp(2)] by simp
  have plain: "\<not> startsWith (Q1 @ CHR ''&'' # Q2) ''?''" "Q1 \<noteq> []" "Q2 \<noteq> []"
    by (simp_all add: Q1_def Q2_def)
  have dec: "urlencoded_decode ''f'' = ''f''" "urlencoded_decode ''a'' = ''a''"
    by (simp_all add: urlencoded_decode_def)
  have pairs: "urlencoded_pair Q1 = (''f'', f)" "urlencoded_pair Q2 = (''a'', a)"
    using assms by (simp_all add: Q1_def Q2_def urlencoded_pair_def dec urlencoded_decode_serialize)
  show ?thesis
    unfolding URLSearchParams_new_def str
    using plain pieces pairs by (simp add: urlencoded_parse_def)
qed

lemma startsWith_self: "startsWith (lit @ rest) lit"
  by (induction lit) auto

lemma regex_query_at_start:
  assumes "lit \<noteq> []" and "rest \<noteq> []" and "hd rest \<noteq> CHR ''!''"
  shows "regex_query lit (lit @ rest) = Some (takeWhile (\<lambda>x. x \<noteq> CHR ''!'') rest)"
proof -
  obtain c cs where lit: "lit = c # cs"
    using assms(1) by (cases lit) auto
  have "startsWith ((c # cs) @ rest) (c # cs)"
    by (rule startsWith_self)
  then show ?thesis
    using assms(2,3) unfolding lit by (simp add: Let_def)
qed

subsection \<open>The callback after a not-found outcome\<close>

text \<open>
  C1 as stated fails in the factory-level variant: after a resolution that ends in
  \<open>not_found\<close> with an error, the hook calls \<^verbatim>\<open>callback()\<close> without the error, which is
  also what it does for a declined request (the third conjunct). Here the engine asks the
  fallback resolver once, and the native resolver fails with \<^verbatim>\<open>Module not found\<close>.
\<close>

theorem not_found_callback_error_free:
  "outcome (getAdaptedResolve (exampleEnv ''Module not found'' []) []
              (exampleRequest ''./missing'' ''/app/src/a.js'')
              (exampleState ''./missing'' ''/app/src/a.js''))
     = Inr (NotFound (Some (JsError ''Module not found'')))
   \<and> resolveHook askFallbackOnce (exampleEnv ''Module not found'' []) ''babel-loader!'' ''/app''
        (exampleState ''./missing'' ''/app/src/a.js'') []
     = (Inr CallbackNoArgs, exampleState ''./missing'' ''/app/src/a.js'', [])
   \<and> resolveHook askFallbackOnce (exampleEnv ''Module not found'' []) ''babel-loader!'' ''/app''
        (exampleState ''!raw-loader!./data.txt'' ''/app/src/a.js'') []
     = (Inr CallbackNoArgs, exampleState ''!raw-loader!./data.txt'' ''/app/src/a.js'', [])
   \<and> CallbackNoArgs \<noteq> CallbackError (JsError ''Module not found'')"
  by (simp add: resolveHook_def askFallbackOnce_def exampleEnv_def exampleState_def
      exampleRequest_def RspackModuleRequest_from_def virtualLoaderName_def issuerOf_def
      RspackModuleRequest_new_def getAdaptedResolve_def failingNative_def dirname_def
      notFoundError_def Let_def)

text \<open>
  C1, amended. When the engine's resolution ends in \<open>not_found\<close>: the factory-level hook
  calls the completion callback with no argument (error-free, as for a declined request),
  whatever error the outcome carries; the compilation-level hook calls it with the error
  the outcome carries.
\<close>

theorem not_found_callback:
  "(RspackModuleRequest_from st prefix root tr = (Inr (Some req), st1, tr1)
      \<longrightarrow> resolver (getAdaptedResolve e) req st1 tr1 = (Inr (NotFound err), st2, tr2)
      \<longrightarrow> resolveHook resolver e prefix root st tr = (Inr CallbackNoArgs, st2, tr2))
   \<and> (RspackModuleRequest_from_compilation vlp cst prefix root = (Inr (Some creq), cst1)
      \<longrightarrow> cresolver (getAdaptedResolve_compilation defaultResolve) creq cst1
            = (Inr (NotFound (Some cause)), cst2)
      \<longrightarrow> resolveHook_compilation cresolver defaultResolve vlp prefix root cst
            = (Inr (CallbackError cause), cst2))"
  by (simp add: resolveHook_def resolveHook_compilation_def)

theorem not_found_callback_witness:
  "RspackModuleRequest_from (exampleState ''./missing'' ''/app/src/a.js'') ''babel-loader!'' ''/app'' []
     = (Inr (Some (exampleRequest ''./missing'' ''/app/src/a.js'')),
        exampleState ''./missing'' ''/app/src/a.js'', [])
   \<and> askFallbackOnce (getAdaptedResolve (exampleEnv ''Module not found'' []))
        (exampleRequest ''./missing'' ''/app/src/a.js'')
        (exampleState ''./missing'' ''/app/src/a.js'') []
     = (Inr (NotFound (Some (JsError ''Module not found''))),
        exampleState ''./missing'' ''/app/src/a.js'', [])
   \<and> resolveHook askFallbackOnce (exampleEnv ''Module not found'' []) ''babel-loader!'' ''/app''
        (exampleState ''./missing'' ''/app/src/a.js'') []
     = (Inr CallbackNoArgs, exampleState ''./missing'' ''/app/src/a.js'', [])
   \<and> RspackModuleRequest_from_compilation ''/plugin/virtual-loader.js''
        (exampleState ''./missing'' ''/app/src/a.js'') ''babel-loader!'' ''/app''
     = (Inr (Some (exampleRequest ''./missing'' ''/app/src/a.js'')),
        exampleState ''./missing'' ''/app/src/a.js'')
   \<and> askDefaultOnce (getAdaptedResolve_compilation (failingDefault ''Module not found''))
        (exampleRequest ''./missing'' ''/app/src/a.js'')
        (exampleState ''./missing'' ''/app/src/a.js'')
     = (Inr (NotFound (Some (JsError ''Module not found''))),
        exampleState ''./missing'' ''/app/src/a.js'')
   \<and> resolveHook_compilation askDefaultOnce (failingDefault ''Module not found'')
        ''/plugin/virtual-loader.js'' ''babel-loader!'' ''/app''
        (exampleState ''./missing'' ''/app/src/a.js'')
     = (Inr (CallbackError (JsError ''Module not found'')),
        exampleState ''./missing'' ''/app/src/a.js'')"
proof -
  let ?st = "exampleState ''./missing'' ''/app/src/a.js''"
  let ?req = "exampleRequest ''./missing'' ''/app/src/a.js''"
  have h1: "RspackModuleRequest_from ?st ''babel-loader!'' ''/app'' [] = (Inr (Some ?req), ?st, [])"
    by (simp add: exampleState_def exampleRequest_def RspackModuleRequest_from_def
          virtualLoaderName_def issuerOf_def RspackModuleRequest_new_def Let_def)
  have h2: "askFallbackOnce (getAdaptedResolve (exampleEnv ''Module not found'' [])) ?req ?st []
      = (Inr (NotFound (Some (JsError ''Module not found''))), ?st, [])"
    by (simp add: askFallbackOnce_def exampleEnv_def exampleState_def exampleRequest_def
          getAdaptedResolve_def failingNative_def notFoundError_def Let_def)
  have h3: "RspackModuleRequest_from_compilation ''/plugin/virtual-loader.js'' ?st
      ''babel-loader!'' ''/app'' = (Inr (Some ?req), ?st)"
    by (simp add: exampleState_def exampleRequest_def RspackModuleRequest_from_compilation_def
          virtualLoaderName_def issuerOf_def RspackModuleRequest_new_def)
  have h4: "askDefaultOnce (getAdaptedResolve_compilation (failingDefault ''Module not found''))
      ?req ?st = (Inr (NotFound (Some (JsError ''Module not found''))), ?st)"
    by (simp add: askDefaultOnce_def getAdaptedResolve_compilation_def failingDefault_def)
  note inst = not_found_callback
    [of ?st "''babel-loader!''" "''/app''" "[]" ?req ?st "[]" askFallbackOnce
        "exampleEnv ''Module not found'' []" "Some (JsError ''Module not found'')" ?st "[]"
        "''/plugin/virtual-loader.js''" ?st ?req ?st askDefaultOnce
        "failingDefault ''Module not found''" "JsError ''Module not found''" ?st]
  from inst h1 h2 h3 h4 show ?thesis by simp
qed

subsection \<open>Classification of specifiers in manual resolution\<close>

text \<open>
  C2. Manual resolution classifies a specifier as a root package import or as a subpath
  import; the specification has the unscoped \<^verbatim>\<open>lodash\<close> classified as a root package import and an
  unscoped \<^verbatim>\<open>name/rest\<close> as a subpath import of the package \<^verbatim>\<open>name\<close>. Both patterns ask for
  two segments in the package name: \<^verbatim>\<open>lodash\<close> matches neither pattern, and \<^verbatim>\<open>lodash/fp\<close>
  is classified as a root import of a package called \<^verbatim>\<open>lodash/fp\<close>.
\<close>

theorem unscoped_specifiers_misclassified:
  "subpathMatch ''lodash/fp'' = None \<and> rootMatch ''lodash/fp'' = Some ''lodash/fp''
   \<and> subpathMatch ''lodash'' = None \<and> rootMatch ''lodash'' = None"
  by (simp add: subpathMatch_def rootMatch_def two_segments_def)

subsection \<open>Declined requests leave the record alone\<close>

text \<open>
  C3 as stated fails in the compilation-level variant: a request that starts with \<^verbatim>\<open>!\<close>,
  has no issuer and comes from a virtual module gets its issuer and context directory
  rewritten from the dependency's parent module, and is then declined.
\<close>

theorem declined_record_modified_compilation:
  "RspackModuleRequest_from_compilation ''/plugin/virtual-loader.js''
     \<lparr> request = JStr ''!raw-loader!./data.txt'', contextDir = JStr ''/app'',
       contextInfo = Some \<lparr> issuer = JStr [], embroiderMeta = None \<rparr>,
       dependencies =
         Some [Some ''babel-loader!/plugin/virtual-loader.js?f=%2Fapp%2Fsrc%2Ffoo.js&a=%2Fapp!''] \<rparr>
     ''babel-loader!'' ''/app''
   = (Inr None,
      \<lparr> request = JStr ''!raw-loader!./data.txt'', contextDir = JStr ''/app/src'',
        contextInfo = Some \<lparr> issuer = JStr ''/app/src/foo.js'', embroiderMeta = None \<rparr>,
        dependencies =
          Some [Some ''babel-loader!/plugin/virtual-loader.js?f=%2Fapp%2Fsrc%2Ffoo.js&a=%2Fapp!''] \<rparr>)
   \<and> snd (RspackModuleRequest_from_compilation ''/plugin/virtual-loader.js''
     \<lparr> request = JStr ''!raw-loader!./data.txt'', contextDir = JStr ''/app'',
       contextInfo = Some \<lparr> issuer = JStr [], embroiderMeta = None \<rparr>,
       dependencies =
         Some [Some ''babel-loader!/plugin/virtual-loader.js?f=%2Fapp%2Fsrc%2Ffoo.js&a=%2Fapp!''] \<rparr>
     ''babel-loader!'' ''/app'')
     \<noteq> \<lparr> request = JStr ''!raw-loader!./data.txt'', contextDir = JStr ''/app'',
       contextInfo = Some \<lparr> issuer = JStr [], embroiderMeta = None \<rparr>,
       dependencies =
         Some [Some ''babel-loader!/plugin/virtual-loader.js?f=%2Fapp%2Fsrc%2Ffoo.js&a=%2Fapp!''] \<rparr>"
  by (simp add: RspackModuleRequest_from_compilation_def issuerOf_def upto_last_bang_def
        URLSearchParams_get_def URLSearchParams_new_def urlencoded_parse_def urlencoded_pair_def
        urlencoded_decode_def hex_val_def char_of_eq_iff dirname_def virtualLoaderName_def)

text \<open>
  C3, amended. A record that the factory-level \<^verbatim>\<open>from\<close> declines is left as it was. A record
  that the compilation-level \<^verbatim>\<open>from\<close> declines is left as it was when it has an issuer, or
  when no parent module of its dependencies is a virtual request; otherwise its specifier
  and dependencies are as they were, its issuer is the parameter \<^verbatim>\<open>f\<close> of the virtual request
  of the last dependency whose parent module is one, and its context directory is the
  \<^verbatim>\<open>dirname\<close> of that issuer.
\<close>

theorem declined_record_unmodified:
  "(RspackModuleRequest_from st prefix root tr = (Inr None, st', tr') \<longrightarrow> st' = st)
   \<and> (RspackModuleRequest_from_compilation vlp cst prefix root = (Inr None, cst')
        \<longrightarrow> truthy (issuerOf cst) \<or> noVirtualParent vlp cst
        \<longrightarrow> cst' = cst)
   \<and> (RspackModuleRequest_from_compilation vlp cst prefix root = (Inr None, cst')
        \<longrightarrow> \<not> truthy (issuerOf cst)
        \<longrightarrow> \<not> noVirtualParent vlp cst
        \<longrightarrow> (\<exists>deps earlier userRequest later query f.
               dependencies cst = Some deps
             \<and> deps = earlier @ Some userRequest # later
             \<and> list_all (\<lambda>dep. case dep of
                                  None \<Rightarrow> True
                                | Some u \<Rightarrow> regex_virtual_request (vlp @ ''?'') u = None) later
             \<and> regex_virtual_request (vlp @ ''?'') userRequest = Some query
             \<and> URLSearchParams_get (URLSearchParams_new query) ''f'' = Some f
             \<and> issuerOf cst' = JStr f \<and> contextDir cst' = JStr (dirname f)
             \<and> request cst' = request cst \<and> dependencies cst' = dependencies cst))"
  using from_declines_unmodified [of st prefix root tr st' tr']
    from_compilation_declines_unmodified [of vlp cst prefix root cst']
    from_compilation_declines_rewritten [of vlp cst prefix root cst']
  by blast

text \<open>
  A loader request with an issuer is declined by both variants and left as it was; the
  loader request without an issuer of the counterexample is declined by the
  compilation-level variant with the issuer and the context directory of its virtual
  parent.
\<close>

theorem declined_record_unmodified_witness:
  "RspackModuleRequest_from (exampleState ''!raw-loader!./data.txt'' ''/app/src/a.js'')
       ''babel-loader!'' ''/app'' []
     = (Inr None, exampleState ''!raw-loader!./data.txt'' ''/app/src/a.js'', [])
   \<and> RspackModuleRequest_from_compilation ''/plugin/virtual-loader.js''
       (exampleState ''!raw-loader!./data.txt'' ''/app/src/a.js'') ''babel-loader!'' ''/app''
     = (Inr None, exampleState ''!raw-loader!./data.txt'' ''/app/src/a.js'')
   \<and> truthy (issuerOf (exampleState ''!raw-loader!./data.txt'' ''/app/src/a.js''))
   \<and> noVirtualParent ''/plugin/virtual-loader.js''
         (exampleState ''!raw-loader!./data.txt'' ''/app/src/a.js'')
   \<and> \<not> truthy (issuerOf
        \<lparr> request = JStr ''!raw-loader!./data.txt'', contextDir = JStr ''/app'',
          contextInfo = Some \<lparr> issuer = JStr [], embroiderMeta = None \<rparr>,
          dependencies =
            Some [Some ''babel-loader!/plugin/virtual-loader.js?f=%2Fapp%2Fsrc%2Ffoo.js&a=%2Fapp!''] \<rparr>)
   \<and> \<not> noVirtualParent ''/plugin/virtual-loader.js''
        \<lparr> request = JStr ''!raw-loader!./data.txt'', contextDir = JStr ''/app'',
          contextInfo = Some \<lparr> issuer = JStr [], embroiderMeta = None \<rparr>,
          dependencies =
            Some [Some ''babel-loader!/plugin/virtual-loader.js?f=%2Fapp%2Fsrc%2Ffoo.js&a=%2Fapp!''] \<rparr>
   \<and> fst (RspackModuleRequest_from_compilation ''/plugin/virtual-loader.js''
        \<lparr> request = JStr ''!raw-loader!./data.txt'', contextDir = JStr ''/app'',
          contextInfo = Some \<lparr> issuer = JStr [], embroiderMeta = None \<rparr>,
          dependencies =
            Some [Some ''babel-loader!/plugin/virtual-loader.js?f=%2Fapp%2Fsrc%2Ffoo.js&a=%2Fapp!''] \<rparr>
        ''babel-loader!'' ''/app'') = Inr None
   \<and> issuerOf (snd (RspackModuleRequest_from_compilation ''/plugin/virtual-loader.js''
        \<lparr> request = JStr ''!raw-loader!./data.txt'', contextDir = JStr ''/app'',
          contextInfo = Some \<lparr> issuer = JStr [], embroiderMeta = None \<rparr>,
          dependencies =
            Some [Some ''babel-loader!/plugin/virtual-loader.js?f=%2Fapp%2Fsrc%2Ffoo.js&a=%2Fapp!''] \<rparr>
        ''babel-loader!'' ''/app'')) = JStr ''/app/src/foo.js''
   \<and> contextDir (snd (RspackModuleRequest_from_compilation ''/plugin/virtual-loader.js''
        \<lparr> request = JStr ''!raw-loader!./data.txt'', contextDir = JStr ''/app'',
          contextInfo = Some \<lparr> issuer = JStr [], embroiderMeta = None \<rparr>,
          dependencies =
            Some [Some ''babel-loader!/plugin/virtual-loader.js?f=%2Fapp%2Fsrc%2Ffoo.js&a=%2Fapp!''] \<rparr>
        ''babel-loader!'' ''/app'')) = JStr (dirname ''/app/src/foo.js'')"
proof -
  let ?kept = "exampleState ''!raw-loader!./data.txt'' ''/app/src/a.js''"
  let ?orphan = "\<lparr> request = JStr ''!raw-loader!./data.txt'', contextDir = JStr ''/app'',
          contextInfo = Some \<lparr> issuer = JStr [], embroiderMeta = None \<rparr>,
          dependencies =
            Some [Some ''babel-loader!/plugin/virtual-loader.js?f=%2Fapp%2Fsrc%2Ffoo.js&a=%2Fapp!''] \<rparr>"
  let ?repaired = "\<lparr> request = JStr ''!raw-loader!./data.txt'', contextDir = JStr ''/app/src'',
          contextInfo = Some \<lparr> issuer = JStr ''/app/src/foo.js'', embroiderMeta = None \<rparr>,
          dependencies =
            Some [Some ''babel-loader!/plugin/virtual-loader.js?f=%2Fapp%2Fsrc%2Ffoo.js&a=%2Fapp!''] \<rparr>"
  have h1: "RspackModuleRequest_from ?kept ''babel-loader!'' ''/app'' [] = (Inr None, ?kept, [])"
    by (simp add: exampleState_def RspackModuleRequest_from_def virtualLoaderName_def)
  have h2: "RspackModuleRequest_from_compilation ''/plugin/virtual-loader.js'' ?kept
      ''babel-loader!'' ''/app'' = (Inr None, ?kept)"
    by (simp add: exampleState_def RspackModuleRequest_from_compilation_def
          virtualLoaderName_def issuerOf_def)
  have h3: "truthy (issuerOf ?kept)" "noVirtualParent ''/plugin/virtual-loader.js'' ?kept"
    by (simp_all add: exampleState_def issuerOf_def noVirtualParent_def)
  have h4: "RspackModuleRequest_from_compilation ''/plugin/virtual-loader.js'' ?orphan
      ''babel-loader!'' ''/app'' = (Inr None, ?repaired)"
    by (simp add: RspackModuleRequest_from_compilation_def issuerOf_def upto_last_bang_def
        URLSearchParams_get_def URLSearchParams_new_def urlencoded_parse_def urlencoded_pair_def
        urlencoded_decode_def hex_val_def char_of_eq_iff dirname_def virtualLoaderName_def)
  have h5: "\<not> truthy (issuerOf ?orphan)"
    by (simp add: issuerOf_def)
  have h6: "\<not> noVirtualParent ''/plugin/virtual-loader.js'' ?orphan"
    by (simp add: noVirtualParent_def upto_last_bang_def)
  have dn: "dirname ''/app/src/foo.js'' = ''/app/src''"
    by (simp add: dirname_def)
  note inst = declined_record_unmodified
    [of ?orphan "''babel-loader!''" "''/app''" "[]" ?orphan "[]"
        "''/plugin/virtual-loader.js''" ?orphan ?repaired,
     THEN conjunct2, THEN conjunct2, rule_format, OF h4 h5 h6]
  from inst h1 h2 h3 h4 h5 h6 dn show ?thesis
    by (simp add: issuerOf_def)
qed

subsection \<open>Manual resolution of a subpath import\<close>

text \<open>
  C4. For a subpath specifier whose native resolution fails with the export-restricted
  signature, three package directories are tried in order: \<^verbatim>\<open>node_modules/<package>\<close> under
  the context directory, under its parent and under its grandparent. In each one that
  exists, eight candidate paths are probed in order: under \<^verbatim>\<open>src/\<close> first and then without
  that prefix, and within each the file \<^verbatim>\<open><subpath>.js\<close>, the file \<^verbatim>\<open><subpath>.ts\<close>, then
  \<^verbatim>\<open><subpath>/index.js\<close> and \<^verbatim>\<open><subpath>/index.ts\<close>. The first candidate that exists wins:
  the record's specifier is rewritten to it and the outcome is \<open>found\<close>; when none exists
  the outcome is \<open>not_found\<close> with the resolver's error and the record is unchanged. In
  particular, when \<^verbatim>\<open>src/<subpath>.ts\<close> exists in the first existing package directory and
  \<^verbatim>\<open>src/<subpath>.js\<close>, the only candidate before it, does not, the specifier is rewritten
  to that \<^verbatim>\<open>.ts\<close> file; for the specifier \<^verbatim>\<open>@scope/pkg/deep/path\<close> imported by a file with an
  absolute name that is \<^verbatim>\<open><packageDir>/src/deep/path.ts\<close>.
\<close>

theorem manual_subpath_resolution:
  assumes "fromFile req = JStr importer" and "request st = JStr spec"
      and "\<not> str_includes spec ''!''"
      and "nativeResolve e (dirname importer) spec = (Some err, result)"
      and "str_includes (message err) ''PackagePathNotExported''"
      and "subpathMatch spec = Some (packageName, subpath)"
  shows "(let dirs = [path_join [dirname importer, ''node_modules'', packageName],
                      path_join [dirname importer, ''..'', ''node_modules'', packageName],
                      path_join [dirname importer, ''..'', ''..'', ''node_modules'', packageName]];
              paths = (\<lambda>packageDir.
                     [path_join [packageDir, ''src'', subpath @ ''.js''],
                      path_join [packageDir, ''src'', subpath @ ''.ts''],
                      path_join [packageDir, ''src'', subpath, ''index.js''],
                      path_join [packageDir, ''src'', subpath, ''index.ts''],
                      path_join [packageDir, subpath @ ''.js''],
                      path_join [packageDir, subpath @ ''.ts''],
                      path_join [packageDir, subpath, ''index.js''],
                      path_join [packageDir, subpath, ''index.ts'']])
          in (\<forall>target.
                find (existsSync e) (concat (map paths (filter (existsSync e) dirs))) = Some target
                \<longrightarrow> outcome (getAdaptedResolve e tr req st) = Inr Found
                    \<and> newState (getAdaptedResolve e tr req st) = st\<lparr>request := JStr target\<rparr>)
           \<and> (find (existsSync e) (concat (map paths (filter (existsSync e) dirs))) = None
                \<longrightarrow> outcome (getAdaptedResolve e tr req st) = Inr (NotFound (Some err))
                    \<and> newState (getAdaptedResolve e tr req st) = st)
           \<and> (\<forall>pre packageDir post target.
                dirs = pre @ packageDir # post
                \<longrightarrow> (\<forall>d \<in> set pre. \<not> existsSync e d)
                \<longrightarrow> existsSync e packageDir
                \<longrightarrow> find (existsSync e) (paths packageDir) = Some target
                \<longrightarrow> outcome (getAdaptedResolve e tr req st) = Inr Found
                    \<and> newState (getAdaptedResolve e tr req st) = st\<lparr>request := JStr target\<rparr>)
           \<and> (\<forall>pre packageDir post.
                dirs = pre @ packageDir # post
                \<longrightarrow> (\<forall>d \<in> set pre. \<not> existsSync e d)
                \<longrightarrow> existsSync e packageDir
                \<longrightarrow> \<not> existsSync e (path_join [packageDir, ''src'', subpath @ ''.js''])
                \<longrightarrow> existsSync e (path_join [packageDir, ''src'', subpath @ ''.ts''])
                \<longrightarrow> outcome (getAdaptedResolve e tr req st) = Inr Found
                    \<and> newState (getAdaptedResolve e tr req st)
                        = st\<lparr>request := JStr (path_join [packageDir, ''src'', subpath @ ''.ts''])\<rparr>)
           \<and> (\<forall>p pre packageDir post.
                importer = CHR ''/'' # p
                \<longrightarrow> spec = ''@scope/pkg/deep/path''
                \<longrightarrow> dirs = pre @ packageDir # post
                \<longrightarrow> (\<forall>d \<in> set pre. \<not> existsSync e d)
                \<longrightarrow> existsSync e packageDir
                \<longrightarrow> \<not> existsSync e (packageDir @ ''/src/deep/path.js'')
                \<longrightarrow> existsSync e (packageDir @ ''/src/deep/path.ts'')
                \<longrightarrow> outcome (getAdaptedResolve e tr req st) = Inr Found
                    \<and> newState (getAdaptedResolve e tr req st)
                        = st\<lparr>request := JStr (packageDir @ ''/src/deep/path.ts'')\<rparr>))"
proof -
  let ?dirs = "candidatePackageDirs (dirname importer) packageName"
  let ?paths = "\<lambda>packageDir. candidatePaths packageDir subpath"
  let ?all = "find (existsSync e) (concat (map ?paths (filter (existsSync e) ?dirs)))"
  note run = manual_subpath_outcome [OF assms, of tr]
  have hit: "outcome (getAdaptedResolve e tr req st) = Inr Found
       \<and> newState (getAdaptedResolve e tr req st) = st\<lparr>request := JStr target\<rparr>"
    if "?all = Some target" for target
    using run that by simp
  have miss: "outcome (getAdaptedResolve e tr req st) = Inr (NotFound (Some err))
       \<and> newState (getAdaptedResolve e tr req st) = st"
    if "?all = None"
    using run that by simp
  have first: "outcome (getAdaptedResolve e tr req st) = Inr Found
       \<and> newState (getAdaptedResolve e tr req st) = st\<lparr>request := JStr target\<rparr>"
    if dirs: "?dirs = pre @ packageDir # post"
      and absent: "\<forall>d \<in> set pre. \<not> existsSync e d"
      and dir: "existsSync e packageDir"
      and target: "find (existsSync e) (?paths packageDir) = Some target"
    for pre packageDir post target
  proof -
    have "?all = Some target"
      using dirs absent dir target by (simp add: filter_skip_absent find_append_first)
    then show ?thesis by (rule hit)
  qed
  have ts: "outcome (getAdaptedResolve e tr req st) = Inr Found
       \<and> newState (getAdaptedResolve e tr req st)
           = st\<lparr>request := JStr (path_join [packageDir, ''src'', subpath @ ''.ts''])\<rparr>"
    if dirs: "?dirs = pre @ packageDir # post"
      and absent: "\<forall>d \<in> set pre. \<not> existsSync e d"
      and dir: "existsSync e packageDir"
      and js: "\<not> existsSync e (path_join [packageDir, ''src'', subpath @ ''.js''])"
      and ts: "existsSync e (path_join [packageDir, ''src'', subpath @ ''.ts''])"
    for pre packageDir post
  proof -
    have "find (existsSync e) (?paths packageDir)
        = Some (path_join [packageDir, ''src'', subpath @ ''.ts''])"
      using js ts by (simp add: candidatePaths_def)
    with dirs absent dir show ?thesis by (rule first)
  qed
  have example: "outcome (getAdaptedResolve e tr req st) = Inr Found
       \<and> newState (getAdaptedResolve e tr req st)
           = st\<lparr>request := JStr (packageDir @ ''/src/deep/path.ts'')\<rparr>"
    if abs: "importer = CHR ''/'' # p" and spec: "spec = ''@scope/pkg/deep/path''"
      and dirs: "?dirs = pre @ packageDir # post"
      and absent: "\<forall>d \<in> set pre. \<not> existsSync e d"
      and dir: "existsSync e packageDir"
      and js: "\<not> existsSync e (packageDir @ ''/src/deep/path.js'')"
      and tsf: "existsSync e (packageDir @ ''/src/deep/path.ts'')"
    for p pre packageDir post
  proof -
    have names: "packageName = ''@scope/pkg''" "subpath = ''deep/path''"
      using assms(6) unfolding spec by (simp_all add: subpathMatch_def two_segments_def)
    have "packageDir \<in> set (candidatePackageDirs (dirname (CHR ''/'' # p)) ''@scope/pkg'')"
      using dirs unfolding abs names by simp
    then have normal: "normal_absolute packageDir"
      by (rule candidate_dirs_normal)
    note paths = join_src_example [OF normal]
    show ?thesis
      using ts [OF dirs absent dir] js tsf
      unfolding names paths by simp
  qed
  have "(\<forall>target. ?all = Some target
                \<longrightarrow> outcome (getAdaptedResolve e tr req st) = Inr Found
                    \<and> newState (getAdaptedResolve e tr req st) = st\<lparr>request := JStr target\<rparr>)
      \<and> (?all = None
                \<longrightarrow> outcome (getAdaptedResolve e tr req st) = Inr (NotFound (Some err))
                    \<and> newState (getAdaptedResolve e tr req st) = st)
      \<and> (\<forall>pre packageDir post target.
                ?dirs = pre @ packageDir # post
                \<longrightarrow> (\<forall>d \<in> set pre. \<not> existsSync e d)
                \<longrightarrow> existsSync e packageDir
                \<longrightarrow> find (existsSync e) (?paths packageDir) = Some target
                \<longrightarrow> outcome (getAdaptedResolve e tr req st) = Inr Found
                    \<and> newState (getAdaptedResolve e tr req st) = st\<lparr>request := JStr target\<rparr>)
      \<and> (\<forall>pre packageDir post.
                ?dirs = pre @ packageDir # post
                \<longrightarrow> (\<forall>d \<in> set pre. \<not> existsSync e d)
                \<longrightarrow> existsSync e packageDir
                \<longrightarrow> \<not> existsSync e (path_join [packageDir, ''src'', subpath @ ''.js''])
                \<longrightarrow> existsSync e (path_join [packageDir, ''src'', subpath @ ''.ts''])
                \<longrightarrow> outcome (getAdaptedResolve e tr req st) = Inr Found
                    \<and> newState (getAdaptedResolve e tr req st)
                        = st\<lparr>request := JStr (path_join [packageDir, ''src'', subpath @ ''.ts''])\<rparr>)
      \<and> (\<forall>p pre packageDir post.
                importer = CHR ''/'' # p
                \<longrightarrow> spec = ''@scope/pkg/deep/path''
                \<longrightarrow> ?dirs = pre @ packageDir # post
                \<longrightarrow> (\<forall>d \<in> set pre. \<not> existsSync e d)
                \<longrightarrow> existsSync e packageDir
                \<longrightarrow> \<not> existsSync e (packageDir @ ''/src/deep/path.js'')
                \<longrightarrow> existsSync e (packageDir @ ''/src/deep/path.ts'')
                \<longrightarrow> outcome (getAdaptedResolve e tr req st) = Inr Found
                    \<and> newState (getAdaptedResolve e tr req st)
                        = st\<lparr>request := JStr (packageDir @ ''/src/deep/path.ts'')\<rparr>)"
    using hit miss first ts example by blast
  then show ?thesis
    unfolding Let_def candidatePackageDirs_def candidatePaths_def .
qed

text \<open>
  The specification's example: \<^verbatim>\<open>/app/src/a.js\<close> imports \<^verbatim>\<open>@scope/pkg/deep/path\<close>, the package
  is in \<^verbatim>\<open>/app/node_modules\<close> (the second candidate directory) and holds
  \<^verbatim>\<open>src/deep/path.ts\<close>.
\<close>

theorem manual_subpath_resolution_witness:
  "[path_join [dirname ''/app/src/a.js'', ''node_modules'', ''@scope/pkg''],
    path_join [dirname ''/app/src/a.js'', ''..'', ''node_modules'', ''@scope/pkg''],
    path_join [dirname ''/app/src/a.js'', ''..'', ''..'', ''node_modules'', ''@scope/pkg'']]
     = [''/app/src/node_modules/@scope/pkg'', ''/app/node_modules/@scope/pkg'',
        ''/node_modules/@scope/pkg'']
   \<and> outcome (getAdaptedResolve
        (exampleEnv ''PackagePathNotExported''
           [''/app/node_modules/@scope/pkg'', ''/app/node_modules/@scope/pkg/src/deep/path.ts''])
        [] (exampleRequest ''@scope/pkg/deep/path'' ''/app/src/a.js'')
        (exampleState ''@scope/pkg/deep/path'' ''/app/src/a.js'')) = Inr Found
   \<and> request (newState (getAdaptedResolve
        (exampleEnv ''PackagePathNotExported''
           [''/app/node_modules/@scope/pkg'', ''/app/node_modules/@scope/pkg/src/deep/path.ts''])
        [] (exampleRequest ''@scope/pkg/deep/path'' ''/app/src/a.js'')
        (exampleState ''@scope/pkg/deep/path'' ''/app/src/a.js'')))
     = JStr ''/app/node_modules/@scope/pkg/src/deep/path.ts''"
proof -
  let ?e = "exampleEnv ''PackagePathNotExported''
           [''/app/node_modules/@scope/pkg'', ''/app/node_modules/@scope/pkg/src/deep/path.ts'']"
  let ?req = "exampleRequest ''@scope/pkg/deep/path'' ''/app/src/a.js''"
  let ?st = "exampleState ''@scope/pkg/deep/path'' ''/app/src/a.js''"
  have dn: "dirname ''/app/src/a.js'' = ''/app/src''"
    by (simp add: dirname_def)
  have h1: "fromFile ?req = JStr ''/app/src/a.js''"
    by (simp add: exampleRequest_def)
  have h2: "request ?st = JStr ''@scope/pkg/deep/path''"
    by (simp add: exampleState_def)
  have h3: "\<not> str_includes ''@scope/pkg/deep/path'' ''!''"
    by simp
  have h4: "nativeResolve ?e (dirname ''/app/src/a.js'') ''@scope/pkg/deep/path''
      = (Some (JsError ''PackagePathNotExported''), JUndefined)"
    by (simp add: exampleEnv_def failingNative_def)
  have h5: "str_includes (message (JsError ''PackagePathNotExported'')) ''PackagePathNotExported''"
    by simp
  have h6: "subpathMatch ''@scope/pkg/deep/path'' = Some (''@scope/pkg'', ''deep/path'')"
    by (simp add: subpathMatch_def two_segments_def)
  have abs: "''/app/src/a.js'' = CHR ''/'' # ''app/src/a.js''"
    by simp
  have dirs: "[path_join [dirname ''/app/src/a.js'', ''node_modules'', ''@scope/pkg''],
      path_join [dirname ''/app/src/a.js'', ''..'', ''node_modules'', ''@scope/pkg''],
      path_join [dirname ''/app/src/a.js'', ''..'', ''..'', ''node_modules'', ''@scope/pkg'']]
     = [''/app/src/node_modules/@scope/pkg''] @ ''/app/node_modules/@scope/pkg''
        # [''/node_modules/@scope/pkg'']"
    unfolding dn
    by (simp add: path_join_def path_normalize_def normalizeString_def)
  have absent: "\<And>d. d \<in> set [''/app/src/node_modules/@scope/pkg''] \<Longrightarrow> \<not> existsSync ?e d"
    by (simp add: exampleEnv_def)
  have dir: "existsSync ?e ''/app/node_modules/@scope/pkg''"
    by (simp add: exampleEnv_def)
  have nojs: "\<not> existsSync ?e (''/app/node_modules/@scope/pkg'' @ ''/src/deep/path.js'')"
    by (simp add: exampleEnv_def)
  have ists: "existsSync ?e (''/app/node_modules/@scope/pkg'' @ ''/src/deep/path.ts'')"
    by (simp add: exampleEnv_def)
  note inst = manual_subpath_resolution [OF h1 h2 h3 h4 h5 h6, of "[]", unfolded Let_def]
  from inst [THEN conjunct2, THEN conjunct2, THEN conjunct2, THEN conjunct2,
      rule_format, OF abs refl dirs absent dir nojs ists]
  have "outcome (getAdaptedResolve ?e [] ?req ?st) = Inr Found"
   and "newState (getAdaptedResolve ?e [] ?req ?st)
          = ?st\<lparr>request := JStr (''/app/node_modules/@scope/pkg'' @ ''/src/deep/path.ts'')\<rparr>"
    by simp_all
  then show ?thesis
    using dirs by simp
qed

subsection \<open>Native failures without the export-restricted signature\<close>

text \<open>
  C5. When the native resolver fails (it calls back with an error, or without a result)
  and the error does not carry the export-restricted signature, the outcome is
  \<open>not_found\<close> with that error (with a synthesized \<^verbatim>\<open>Module not found\<close> error when the
  resolver gave none), the record and the tracker are unchanged, and the only call made
  is the one to the native resolver: nothing is probed on disk.
\<close>

theorem other_failures_not_found:
  assumes "fromFile req = JStr importer" and "request st = JStr spec"
      and "\<not> str_includes spec ''!''"
      and "nativeResolve e (dirname importer) spec = (err, result)"
      and "err \<noteq> None \<or> \<not> truthy result"
      and "\<forall>er. err = Some er \<longrightarrow> \<not> str_includes (message er) ''PackagePathNotExported''"
  shows "outcome (getAdaptedResolve e tr req st)
           = Inr (NotFound (Some (case err of
                                    Some er \<Rightarrow> er
                                  | None \<Rightarrow> JsError (''Module not found: '' @ spec))))
         \<and> effects (getAdaptedResolve e tr req st) = [NativeResolve (dirname importer) spec]
         \<and> newState (getAdaptedResolve e tr req st) = st
         \<and> newTracker (getAdaptedResolve e tr req st) = tr"
  using assms
  by (cases err) (auto simp: getAdaptedResolve_def notFoundError_def Let_def)

theorem other_failures_not_found_witness:
  "outcome (getAdaptedResolve
       (exampleEnv ''Module not found'' [''/app/node_modules/@scope/pkg''])
       [] (exampleRequest ''@scope/pkg/deep/path'' ''/app/src/a.js'')
       (exampleState ''@scope/pkg/deep/path'' ''/app/src/a.js''))
     = Inr (NotFound (Some (JsError ''Module not found'')))
   \<and> effects (getAdaptedResolve
       (exampleEnv ''Module not found'' [''/app/node_modules/@scope/pkg''])
       [] (exampleRequest ''@scope/pkg/deep/path'' ''/app/src/a.js'')
       (exampleState ''@scope/pkg/deep/path'' ''/app/src/a.js''))
     = [NativeResolve ''/app/src'' ''@scope/pkg/deep/path'']"
proof -
  let ?e = "exampleEnv ''Module not found'' [''/app/node_modules/@scope/pkg'']"
  let ?req = "exampleRequest ''@scope/pkg/deep/path'' ''/app/src/a.js''"
  let ?st = "exampleState ''@scope/pkg/deep/path'' ''/app/src/a.js''"
  have dn: "dirname ''/app/src/a.js'' = ''/app/src''"
    by (simp add: dirname_def)
  have h1: "fromFile ?req = JStr ''/app/src/a.js''"
    by (simp add: exampleRequest_def)
  have h2: "request ?st = JStr ''@scope/pkg/deep/path''"
    by (simp add: exampleState_def)
  have h3: "\<not> str_includes ''@scope/pkg/deep/path'' ''!''"
    by simp
  have h4: "nativeResolve ?e (dirname ''/app/src/a.js'') ''@scope/pkg/deep/path''
      = (Some (JsError ''Module not found''), JUndefined)"
    by (simp add: exampleEnv_def failingNative_def)
  have h5: "Some (JsError ''Module not found'') \<noteq> None \<or> \<not> truthy JUndefined"
    by simp
  have h6: "\<forall>er. Some (JsError ''Module not found'') = Some er
      \<longrightarrow> \<not> str_includes (message er) ''PackagePathNotExported''"
    by simp
  from other_failures_not_found [OF h1 h2 h3 h4 h5 h6, of "[]"] dn
  show ?thesis by simp
qed

subsection \<open>Manual resolution of a root package import\<close>



subsection \<open>Loader requests in the fallback resolver\<close>

text \<open>
  C7. For a request (with a string as importing file) whose current specifier contains
  \<^verbatim>\<open>!\<close>, the fallback resolver reports \<open>found\<close> without calling the native resolver or
  touching the disk, and leaves the record as it is. When the specifier references the
  virtual loader with a non-empty parameter \<^verbatim>\<open>f\<close>, the tracker gains the entry
  \<^verbatim>\<open>dirname(f)\<close> \<open>\<mapsto>\<close> \<^verbatim>\<open>f\<close>; for \<^verbatim>\<open>f=/app/foo.js\<close> that is \<^verbatim>\<open>/app\<close> \<open>\<mapsto>\<close> \<^verbatim>\<open>/app/foo.js\<close>.
\<close>

theorem loader_request_found:
  assumes "fromFile req = JStr importer" and "request st = JStr spec"
      and "str_includes spec ''!''"
  shows "outcome (getAdaptedResolve e tr req st) = Inr Found
         \<and> effects (getAdaptedResolve e tr req st) = []
         \<and> newState (getAdaptedResolve e tr req st) = st
         \<and> (\<forall>query filename.
               regex_query (virtualLoaderName @ ''?'') spec = Some query
               \<longrightarrow> URLSearchParams_get (URLSearchParams_new query) ''f'' = Some filename
               \<longrightarrow> filename \<noteq> []
               \<longrightarrow> newTracker (getAdaptedResolve e tr req st)
                     = AList.update (dirname filename) filename tr
                  \<and> map_of (newTracker (getAdaptedResolve e tr req st)) (dirname filename)
                     = Some filename)
         \<and> dirname ''/app/foo.js'' = ''/app''"
  using assms
  by (auto simp: getAdaptedResolve_def Let_def trackVirtualModule_def dirname_def update_conv'
           dest: regex_query_includes)

theorem loader_request_found_witness:
  "outcome (getAdaptedResolve (exampleEnv ''Module not found'' []) []
       (exampleRequest ''./foo'' ''/app/src/a.js'')
       (exampleState ''babel-loader!@embroider/rspack/src/virtual-loader?f=%2Fapp%2Ffoo.js&a=%2Fapp!''
          ''/app/src/a.js'')) = Inr Found
   \<and> effects (getAdaptedResolve (exampleEnv ''Module not found'' []) []
       (exampleRequest ''./foo'' ''/app/src/a.js'')
       (exampleState ''babel-loader!@embroider/rspack/src/virtual-loader?f=%2Fapp%2Ffoo.js&a=%2Fapp!''
          ''/app/src/a.js'')) = []
   \<and> newTracker (getAdaptedResolve (exampleEnv ''Module not found'' []) []
       (exampleRequest ''./foo'' ''/app/src/a.js'')
       (exampleState ''babel-loader!@embroider/rspack/src/virtual-loader?f=%2Fapp%2Ffoo.js&a=%2Fapp!''
          ''/app/src/a.js'')) = [(''/app'', ''/app/foo.js'')]"
proof -
  let ?spec = "''babel-loader!@embroider/rspack/src/virtual-loader?f=%2Fapp%2Ffoo.js&a=%2Fapp!''"
  let ?req = "exampleRequest ''./foo'' ''/app/src/a.js''"
  let ?st = "exampleState ?spec ''/app/src/a.js''"
  have h1: "fromFile ?req = JStr ''/app/src/a.js''"
    by (simp add: exampleRequest_def)
  have h2: "request ?st = JStr ?spec"
    by (simp add: exampleState_def)
  have h3: "str_includes ?spec ''!''"
    by simp
  have q: "regex_query (virtualLoaderName @ ''?'') ?spec = Some ''f=%2Fapp%2Ffoo.js&a=%2Fapp''"
    by (simp add: virtualLoaderName_def)
  have f: "URLSearchParams_get (URLSearchParams_new ''f=%2Fapp%2Ffoo.js&a=%2Fapp'') ''f''
      = Some ''/app/foo.js''"
    by (simp add: URLSearchParams_get_def URLSearchParams_new_def urlencoded_parse_def
          urlencoded_pair_def urlencoded_decode_def hex_val_def char_of_eq_iff)
  have ne: "''/app/foo.js'' \<noteq> []"
    by simp
  note inst = loader_request_found [OF h1 h2 h3, of "exampleEnv ''Module not found'' []" "[]"]
  from inst [THEN conjunct2, THEN conjunct2, THEN conjunct2, THEN conjunct1, rule_format, OF q f ne]
    inst
  show ?thesis by simp
qed

subsection \<open>Repairing an empty issuer from the tracker\<close>

text \<open>
  C8 as stated fails for a loader request: a specifier that starts with \<^verbatim>\<open>!\<close> is declined
  before any repair, although the issuer is empty, the specifier is no implicit-modules
  request and the tracker has an entry for the context directory.
\<close>

theorem issuer_repair_declined_for_loader_request:
  "map_of [(''/app'', ''/app/foo.js'')] ''/app'' = Some ''/app/foo.js''
   \<and> RspackModuleRequest_from
       \<lparr> request = JStr ''!raw-loader!./data.txt'', contextDir = JStr ''/app'',
         contextInfo = Some \<lparr> issuer = JStr [], embroiderMeta = None \<rparr>, dependencies = None \<rparr>
       ''babel-loader!'' ''/app'' [(''/app'', ''/app/foo.js'')]
     = (Inr None,
        \<lparr> request = JStr ''!raw-loader!./data.txt'', contextDir = JStr ''/app'',
          contextInfo = Some \<lparr> issuer = JStr [], embroiderMeta = None \<rparr>, dependencies = None \<rparr>,
        [(''/app'', ''/app/foo.js'')])"
  by (simp add: RspackModuleRequest_from_def virtualLoaderName_def)

text \<open>
  C8, amended. For a record whose specifier and context directory are strings, whose
  issuer is empty, and whose specifier neither matches the implicit-modules convention,
  nor references the virtual loader, nor starts with \<^verbatim>\<open>!\<close>: when the tracker has an entry for
  the context directory, \<^verbatim>\<open>from\<close> sets the issuer to the tracked filename and constructs a
  request from that file; when it has none, \<^verbatim>\<open>from\<close> declines and leaves the record as it is.
\<close>

theorem issuer_repair_from_tracker:
  assumes "request st = JStr spec" and "contextDir st = JStr ctx"
      and "\<not> truthy (issuerOf st)"
      and "\<not> str_includes spec ''-embroider-implicit-''"
      and "\<not> str_includes spec virtualLoaderName"
      and "\<not> startsWith spec ''!''"
      and "tracker_ok tr"
  shows "(\<forall>filename. map_of tr ctx = Some filename \<longrightarrow>
            RspackModuleRequest_from st prefix root tr
              = (Inr (Some \<lparr> babelLoaderPrefix = prefix, appRoot = root, isVirtual = False,
                               specifier = JStr spec, fromFile = JStr filename,
                               meta = (case contextInfo st of None \<Rightarrow> None
                                       | Some ci \<Rightarrow> embroiderMeta ci) \<rparr>),
                 setIssuer st filename, tr)
            \<and> issuerOf (setIssuer st filename) = JStr filename)
         \<and> (map_of tr ctx = None \<longrightarrow>
              RspackModuleRequest_from st prefix root tr = (Inr None, st, tr))"
proof -
  have ne: "filename \<noteq> []" if "map_of tr ctx = Some filename" for filename
    using that assms(7) by (auto simp: tracker_ok_def list_all_iff dest!: map_of_SomeD)
  show ?thesis
    using assms(1-6) ne
    by (auto simp: RspackModuleRequest_from_def Let_def issuerOf_def
          RspackModuleRequest_new_def setIssuer_def split: option.splits)
qed

theorem issuer_repair_from_tracker_witness:
  "RspackModuleRequest_from
       \<lparr> request = JStr ''./x.js'', contextDir = JStr (dirname ''/app/foo.js''),
         contextInfo = Some \<lparr> issuer = JStr [], embroiderMeta = None \<rparr>, dependencies = None \<rparr>
       ''babel-loader!'' ''/app'' [(''/app'', ''/app/foo.js'')]
     = (Inr (Some \<lparr> babelLoaderPrefix = ''babel-loader!'', appRoot = ''/app'', isVirtual = False,
                     specifier = JStr ''./x.js'', fromFile = JStr ''/app/foo.js'', meta = None \<rparr>),
        \<lparr> request = JStr ''./x.js'', contextDir = JStr ''/app'',
          contextInfo = Some \<lparr> issuer = JStr ''/app/foo.js'', embroiderMeta = None \<rparr>,
          dependencies = None \<rparr>,
        [(''/app'', ''/app/foo.js'')])"
proof -
  let ?st = "\<lparr> request = JStr ''./x.js'', contextDir = JStr (dirname ''/app/foo.js''),
         contextInfo = Some \<lparr> issuer = JStr [], embroiderMeta = None \<rparr>, dependencies = None \<rparr>"
  have dn: "dirname ''/app/foo.js'' = ''/app''"
    by (simp add: dirname_def)
  have h1: "request ?st = JStr ''./x.js''" and h2: "contextDir ?st = JStr ''/app''"
    by (simp_all add: dn)
  have h3: "\<not> truthy (issuerOf ?st)"
    by (simp add: issuerOf_def)
  have h4: "\<not> str_includes ''./x.js'' ''-embroider-implicit-''"
    and h5: "\<not> str_includes ''./x.js'' virtualLoaderName"
    and h6: "\<not> startsWith ''./x.js'' ''!''"
    by (simp_all add: virtualLoaderName_def)
  have h7: "tracker_ok [(''/app'', ''/app/foo.js'')]"
    by (simp add: tracker_ok_def)
  have h8: "map_of [(''/app'', ''/app/foo.js'')] ''/app'' = Some ''/app/foo.js''"
    by simp
  from issuer_repair_from_tracker [OF h1 h2 h3 h4 h5 h6 h7, of "''babel-loader!''" "''/app''",
      THEN conjunct1, rule_format, OF h8]
  show ?thesis by (simp add: setIssuer_def dn)
qed

subsection \<open>The round trip of \<^verbatim>\<open>virtualize\<close>\<close>

text \<open>
  C9. For a request over a record with \<^verbatim>\<open>contextInfo\<close> (every constructed request has one),
  a filename \<open>f\<close> and an app root \<open>a\<close>, \<^verbatim>\<open>virtualize(f)\<close> returns a new request with
  \<^verbatim>\<open>isVirtual\<close> set, whose specifier (also written to the record) is the loader prefix, the
  name of the virtual loader, \<^verbatim>\<open>?\<close>, the query \<^verbatim>\<open>f=<f>&a=<a>\<close> with both values
  URL-encoded, and \<^verbatim>\<open>!\<close>. The query contains no \<^verbatim>\<open>!\<close>, the pattern of the fallback resolver
  extracts it from the loader part, and parsing it gives back exactly \<open>f\<close> and \<open>a\<close>.
\<close>

theorem virtualize_roundtrip:
  assumes "contextInfo st = Some ci"
      and "well_formed f" and "well_formed (appRoot this)"
      and "query = ''f='' @ urlencoded_serialize f @ ''&a='' @ urlencoded_serialize (appRoot this)"
  shows "request_virtualize this f st
           = Inr (\<lparr> babelLoaderPrefix = babelLoaderPrefix this, appRoot = appRoot this,
                    isVirtual = True,
                    specifier = JStr (babelLoaderPrefix this @ virtualLoaderName @ ''?'' @ query @ ''!''),
                    fromFile = issuer ci, meta = embroiderMeta ci \<rparr>,
                  st\<lparr>request := JStr (babelLoaderPrefix this @ virtualLoaderName @ ''?'' @ query @ ''!'')\<rparr>)
       \<and> CHR ''!'' \<notin> set query
       \<and> regex_query (virtualLoaderName @ ''?'') (virtualLoaderName @ ''?'' @ query @ ''!'')
           = Some query
       \<and> URLSearchParams_get (URLSearchParams_new query) ''f'' = Some f
       \<and> URLSearchParams_get (URLSearchParams_new query) ''a'' = Some (appRoot this)"
proof -
  have ser: "urlencoded_serialize ''f'' = ''f''" "urlencoded_serialize ''a'' = ''a''"
    by (simp_all add: urlencoded_serialize_def urlencoded_byte_def urlencoded_unreserved_def)
  have str: "URLSearchParams_toString [(''f'', f), (''a'', appRoot this)] = query"
    by (simp add: URLSearchParams_toString_def ser assms(4))
  have nobang: "CHR ''!'' \<notin> set query"
    unfolding assms(4) using urlencoded_serialize_clean by fastforce
  have run: "request_virtualize this f st
           = Inr (\<lparr> babelLoaderPrefix = babelLoaderPrefix this, appRoot = appRoot this,
                    isVirtual = True,
                    specifier = JStr (babelLoaderPrefix this @ virtualLoaderName @ ''?'' @ query @ ''!''),
                    fromFile = issuer ci, meta = embroiderMeta ci \<rparr>,
                  st\<lparr>request := JStr (babelLoaderPrefix this @ virtualLoaderName @ ''?'' @ query @ ''!'')\<rparr>)"
    using assms(1) str
    by (cases "embroiderMeta ci")
       (simp_all add: request_virtualize_def request_alias_def RspackModuleRequest_new_def Let_def)
  have parsed: "URLSearchParams_new query = [(''f'', f), (''a'', appRoot this)]"
    using params_roundtrip [OF assms(2,3)] str by simp
  have "query @ ''!'' \<noteq> []" and "hd (query @ ''!'') \<noteq> CHR ''!''"
    by (simp_all add: assms(4))
  moreover have "virtualLoaderName @ ''?'' \<noteq> []"
    by simp
  ultimately have "regex_query (virtualLoaderName @ ''?'') ((virtualLoaderName @ ''?'') @ query @ ''!'')
      = Some (takeWhile (\<lambda>x. x \<noteq> CHR ''!'') (query @ ''!''))"
    by (intro regex_query_at_start)
  moreover have "takeWhile (\<lambda>x. x \<noteq> CHR ''!'') (query @ ''!'') = query"
    using nobang by (induction query) auto
  ultimately have pulled:
    "regex_query (virtualLoaderName @ ''?'') (virtualLoaderName @ ''?'' @ query @ ''!'') = Some query"
    by simp
  show ?thesis
    using run nobang pulled parsed by (simp add: URLSearchParams_get_def)
qed

theorem virtualize_roundtrip_witness:
  "request_virtualize (exampleRequest ''./foo'' ''/app/src/a.js'') ''/app/foo.js''
       (exampleState ''./foo'' ''/app/src/a.js'')
     = Inr (\<lparr> babelLoaderPrefix = ''babel-loader!'', appRoot = ''/app'', isVirtual = True,
              specifier = JStr ''babel-loader!@embroider/rspack/src/virtual-loader?f=%2Fapp%2Ffoo.js&a=%2Fapp!'',
              fromFile = JStr ''/app/src/a.js'', meta = None \<rparr>,
            exampleState ''babel-loader!@embroider/rspack/src/virtual-loader?f=%2Fapp%2Ffoo.js&a=%2Fapp!''
              ''/app/src/a.js'')
   \<and> URLSearchParams_get (URLSearchParams_new ''f=%2Fapp%2Ffoo.js&a=%2Fapp'') ''f''
       = Some ''/app/foo.js''
   \<and> URLSearchParams_get (URLSearchParams_new ''f=%2Fapp%2Ffoo.js&a=%2Fapp'') ''a''
       = Some ''/app''"
proof -
  let ?r = "exampleRequest ''./foo'' ''/app/src/a.js''"
  let ?st = "exampleState ''./foo'' ''/app/src/a.js''"
  have h1: "contextInfo ?st = Some \<lparr> issuer = JStr ''/app/src/a.js'', embroiderMeta = None \<rparr>"
    by (simp add: exampleState_def)
  have h2: "well_formed ''/app/foo.js''"
    by simp
  have h3: "well_formed (appRoot ?r)"
    by (simp add: exampleRequest_def)
  have h4: "''f='' @ urlencoded_serialize ''/app/foo.js'' @ ''&a='' @ urlencoded_serialize (appRoot ?r)
      = ''f=%2Fapp%2Ffoo.js&a=%2Fapp''"
    by (simp add: exampleRequest_def urlencoded_serialize_def urlencoded_byte_def
          urlencoded_unreserved_def hex_digit_def char_of_eq_iff)
  from virtualize_roundtrip [OF h1 h2 h3 h4 [symmetric]]
  show ?thesis by (simp add: exampleRequest_def exampleState_def virtualLoaderName_def)
qed

subsection \<open>Construction and the presence of \<^verbatim>\<open>contextInfo\<close>\<close>

text \<open>
  C10. When \<^verbatim>\<open>from\<close> decides to construct a request, \<^verbatim>\<open>contextInfo\<close> should be present, so
  that the constructor can read it. For an implicit-modules request without
  \<^verbatim>\<open>contextInfo\<close>, an empty tracker and a context directory outside \<^verbatim>\<open>rewritten-app\<close>, no
  fallback issuer is found, \<^verbatim>\<open>contextInfo\<close> is left missing, \<^verbatim>\<open>from\<close> still calls the
  constructor, and the constructor throws.
\<close>

theorem from_constructs_without_contextInfo:
  "RspackModuleRequest_from
     \<lparr> request = JStr ''./-embroider-implicit-modules.js'', contextDir = JStr ''/app'',
       contextInfo = None, dependencies = None \<rparr> ''babel-loader!'' ''/app'' []
   = (Inl (JsTypeError ''Cannot read properties of undefined (reading issuer)''),
      \<lparr> request = JStr ''./-embroider-implicit-modules.js'', contextDir = JStr ''/app'',
        contextInfo = None, dependencies = None \<rparr>, [])"
  by (simp add: RspackModuleRequest_from_def virtualLoaderName_def issuerOf_def
        fallbackIssuer_def RspackModuleRequest_new_def)

theorem from_constructs_without_contextInfo_witness:
  "\<exists>err. fst (RspackModuleRequest_from
     \<lparr> request = JStr ''./-embroider-implicit-modules.js'', contextDir = JStr ''/app'',
       contextInfo = None, dependencies = None \<rparr> ''babel-loader!'' ''/app'' []) = Inl err"
  using from_constructs_without_contextInfo by simp

subsection \<open>Further properties of the Request Model, the tracker and the fallback resolver\<close>

text \<open>
  \<^verbatim>\<open>rehome\<close> is idempotent: rehoming the request that \<^verbatim>\<open>rehome(x)\<close> returned to \<open>x\<close> again
  returns that same request and leaves the record as it is. After \<^verbatim>\<open>rehome(x)\<close> the request
  is from \<open>x\<close>, and when the issuer changed the record's context directory is
  \<^verbatim>\<open>dirname(x)\<close>.
\<close>

theorem rehome_idempotent:
  assumes "request_rehome this x st = Inr (next, st')"
  shows "request_rehome next x st' = Inr (next, st')
       \<and> fromFile next = JStr x
       \<and> (fromFile this \<noteq> JStr x \<longrightarrow>
            issuerOf st' = JStr x \<and> contextDir st' = JStr (dirname x) \<and> request st' = request st)"
  using assms
  by (auto simp: request_rehome_def RspackModuleRequest_new_def Let_def issuerOf_def
        split: if_splits option.splits)

theorem rehome_idempotent_witness:
  "request_rehome (exampleRequest ''./foo'' ''/app/src/a.js'') ''/lib/b.js''
       (exampleState ''./foo'' ''/app/src/a.js'')
     = Inr (exampleRequest ''./foo'' ''/lib/b.js'', exampleState ''./foo'' ''/lib/b.js'')
   \<and> request_rehome (exampleRequest ''./foo'' ''/lib/b.js'') ''/lib/b.js''
       (exampleState ''./foo'' ''/lib/b.js'')
     = Inr (exampleRequest ''./foo'' ''/lib/b.js'', exampleState ''./foo'' ''/lib/b.js'')"
proof -
  have h: "request_rehome (exampleRequest ''./foo'' ''/app/src/a.js'') ''/lib/b.js''
       (exampleState ''./foo'' ''/app/src/a.js'')
     = Inr (exampleRequest ''./foo'' ''/lib/b.js'', exampleState ''./foo'' ''/lib/b.js'')"
    by (simp add: request_rehome_def RspackModuleRequest_new_def exampleRequest_def
          exampleState_def Let_def)
  from rehome_idempotent [OF h] h show ?thesis by simp
qed

text \<open>
  \<^verbatim>\<open>alias\<close> and \<^verbatim>\<open>withMeta\<close> write through to the record and return a new snapshot of it: over
  a record with \<^verbatim>\<open>contextInfo\<close>, \<^verbatim>\<open>alias(s)\<close> sets the record's specifier to \<open>s\<close> and returns
  a request for \<open>s\<close> from the record's issuer, and \<^verbatim>\<open>withMeta(m)\<close> stores \<open>m\<close> with the issuer
  and returns a request that carries it; neither touches the request it was called on.
\<close>

theorem transformations_write_through:
  assumes "contextInfo st = Some ci"
  shows "request_alias this s st
           = Inr (\<lparr> babelLoaderPrefix = babelLoaderPrefix this, appRoot = appRoot this,
                    isVirtual = False, specifier = JStr s, fromFile = issuer ci,
                    meta = embroiderMeta ci \<rparr>,
                  st\<lparr>request := JStr s\<rparr>)
       \<and> request_withMeta this m st
           = Inr (\<lparr> babelLoaderPrefix = babelLoaderPrefix this, appRoot = appRoot this,
                    isVirtual = False, specifier = request st, fromFile = issuer ci, meta = m \<rparr>,
                  st\<lparr>contextInfo := Some (ci\<lparr>embroiderMeta := m\<rparr>)\<rparr>)"
  using assms
  by (cases "embroiderMeta ci"; cases m)
     (simp_all add: request_alias_def request_withMeta_def RspackModuleRequest_new_def Let_def)

theorem transformations_write_through_witness:
  "request_alias (exampleRequest ''./foo'' ''/app/src/a.js'') ''./bar''
       (exampleState ''./foo'' ''/app/src/a.js'')
     = Inr (exampleRequest ''./bar'' ''/app/src/a.js'', exampleState ''./bar'' ''/app/src/a.js'')"
proof -
  have h: "contextInfo (exampleState ''./foo'' ''/app/src/a.js'')
      = Some \<lparr> issuer = JStr ''/app/src/a.js'', embroiderMeta = None \<rparr>"
    by (simp add: exampleState_def)
  from transformations_write_through [OF h, of "exampleRequest ''./foo'' ''/app/src/a.js''"
      "''./bar''" None]
  show ?thesis by (simp add: exampleRequest_def exampleState_def)
qed

text \<open>
  The tracker only grows: a context directory that has an entry still has one after
  \<^verbatim>\<open>from\<close> and after the fallback resolver, and every filename it holds stays non-empty.
\<close>

theorem tracker_append_only:
  assumes "ctx \<in> dom (map_of tr)"
  shows "ctx \<in> dom (map_of (snd (snd (RspackModuleRequest_from st prefix root tr))))
       \<and> ctx \<in> dom (map_of (newTracker (getAdaptedResolve e tr req st)))
       \<and> (tracker_ok tr \<longrightarrow>
            tracker_ok (snd (snd (RspackModuleRequest_from st prefix root tr)))
            \<and> tracker_ok (newTracker (getAdaptedResolve e tr req st)))"
proof -
  have grow: "ctx \<in> dom (map_of (trackVirtualModule q tr))" for q
    using assms by (auto simp: trackVirtualModule_def update_conv' split: option.splits)
  have "ctx \<in> dom (map_of (snd (snd (RspackModuleRequest_from st prefix root tr))))"
    using assms grow
    by (auto simp: RspackModuleRequest_from_def Let_def
          split: jsval.splits option.splits sum.splits)
  moreover have "ctx \<in> dom (map_of (newTracker (getAdaptedResolve e tr req st)))"
    using assms grow
    by (auto simp: getAdaptedResolve_def Let_def split: jsval.splits option.splits prod.splits)
  ultimately show ?thesis
    using tracker_ok_from tracker_ok_getAdaptedResolve by blast
qed

theorem tracker_append_only_witness:
  "''/lib'' \<in> dom (map_of [(''/lib'', ''/lib/v.js'')])
   \<and> newTracker (getAdaptedResolve (exampleEnv ''Module not found'' []) [(''/lib'', ''/lib/v.js'')]
       (exampleRequest ''./foo'' ''/app/src/a.js'')
       (exampleState ''babel-loader!@embroider/rspack/src/virtual-loader?f=%2Fapp%2Ffoo.js&a=%2Fapp!''
          ''/app/src/a.js''))
     = [(''/lib'', ''/lib/v.js''), (''/app'', ''/app/foo.js'')]
   \<and> ''/lib'' \<in> dom (map_of (newTracker (getAdaptedResolve (exampleEnv ''Module not found'' [])
       [(''/lib'', ''/lib/v.js'')]
       (exampleRequest ''./foo'' ''/app/src/a.js'')
       (exampleState ''babel-loader!@embroider/rspack/src/virtual-loader?f=%2Fapp%2Ffoo.js&a=%2Fapp!''
          ''/app/src/a.js''))))"
proof -
  have h: "''/lib'' \<in> dom (map_of [(''/lib'', ''/lib/v.js'')])"
    by simp
  have run: "newTracker (getAdaptedResolve (exampleEnv ''Module not found'' []) [(''/lib'', ''/lib/v.js'')]
       (exampleRequest ''./foo'' ''/app/src/a.js'')
       (exampleState ''babel-loader!@embroider/rspack/src/virtual-loader?f=%2Fapp%2Ffoo.js&a=%2Fapp!''
          ''/app/src/a.js''))
     = [(''/lib'', ''/lib/v.js''), (''/app'', ''/app/foo.js'')]"
    by (simp add: getAdaptedResolve_def exampleRequest_def exampleState_def virtualLoaderName_def
          trackVirtualModule_def URLSearchParams_get_def URLSearchParams_new_def
          urlencoded_parse_def urlencoded_pair_def urlencoded_decode_def hex_val_def
          char_of_eq_iff dirname_def Let_def)
  from tracker_append_only [OF h, THEN conjunct2, THEN conjunct1,
      of "exampleEnv ''Module not found'' []" "exampleRequest ''./foo'' ''/app/src/a.js''"
         "exampleState ''babel-loader!@embroider/rspack/src/virtual-loader?f=%2Fapp%2Ffoo.js&a=%2Fapp!''
            ''/app/src/a.js''"]
    h run
  show ?thesis by simp
qed

text \<open>
  The fallback resolver always settles with one of the two outcomes: for a request whose
  importing file and whose record's specifier are strings the promise is never rejected,
  and a \<open>not_found\<close> outcome always carries an error.
\<close>

theorem fallback_two_outcomes:
  assumes "fromFile req = JStr importer" and "request st = JStr spec"
  shows "outcome (getAdaptedResolve e tr req st) = Inr Found
       \<or> (\<exists>err. outcome (getAdaptedResolve e tr req st) = Inr (NotFound (Some err)))"
  using assms
  by (auto simp: getAdaptedResolve_def Let_def split: prod.splits option.splits)

theorem fallback_two_outcomes_witness:
  "outcome (getAdaptedResolve (exampleEnv ''Module not found'' []) []
       (exampleRequest ''./missing'' ''/app/src/a.js'')
       (exampleState ''./missing'' ''/app/src/a.js''))
     = Inr (NotFound (Some (JsError ''Module not found'')))"
proof -
  have h1: "fromFile (exampleRequest ''./missing'' ''/app/src/a.js'') = JStr ''/app/src/a.js''"
    by (simp add: exampleRequest_def)
  have h2: "request (exampleState ''./missing'' ''/app/src/a.js'') = JStr ''./missing''"
    by (simp add: exampleState_def)
  have run: "outcome (getAdaptedResolve (exampleEnv ''Module not found'' []) []
       (exampleRequest ''./missing'' ''/app/src/a.js'')
       (exampleState ''./missing'' ''/app/src/a.js''))
     = Inr (NotFound (Some (JsError ''Module not found'')))"
    by (simp add: getAdaptedResolve_def exampleEnv_def exampleRequest_def exampleState_def
          failingNative_def notFoundError_def Let_def)
  from fallback_two_outcomes [OF h1 h2, of "exampleEnv ''Module not found'' []" "[]"] run
  show ?thesis by simp
qed

end
